theory Spec2Isabelle
  imports Main "HOL-Library.Word"
begin

unbundle bit_operations_syntax

section \<open>The HAL: bus transport, tick counter and delay\<close>

text \<open>
  The driver in \<^verbatim>\<open>src/eeprom24.cpp\<close> talks to the chip only through five functions of
  the STM32 HAL, which is not part of the repository:
  \<^verbatim>\<open>HAL_I2C_IsDeviceReady(hi2c, uint16_t DevAddress, uint32_t Trials, uint32_t Timeout)\<close>,
  \<^verbatim>\<open>HAL_I2C_Master_Transmit(hi2c, uint16_t DevAddress, uint8_t *pData, uint16_t Size, uint32_t Timeout)\<close>,
  \<^verbatim>\<open>HAL_I2C_Master_Receive(hi2c, uint16_t DevAddress, uint8_t *pData, uint16_t Size, uint32_t Timeout)\<close>,
  \<^verbatim>\<open>uint32_t HAL_GetTick()\<close> and \<^verbatim>\<open>HAL_Delay(uint32_t)\<close>.
  They are taken as a parameter: a value of type \<open>hal\<close> says, for every call and every
  history, which status the call returns, which bytes a receive stores and how many ticks
  the call takes. The world is the 32-bit millisecond tick and the trace of calls made so
  far, oldest first.

  The functions are those of \<^verbatim>\<open>src/eeprom24.cpp\<close>, under the names they have there. The
  repository holds an earlier revision of the same file, which passes the bus address
  unshifted and whose \<^verbatim>\<open>init\<close> takes the handle; its frames, loops and results are the same.
\<close>

type_synonym u8 = "8 word"
type_synonym u16 = "16 word"
type_synonym u32 = "32 word"

datatype HAL_StatusTypeDef = HAL_OK | HAL_ERROR | HAL_BUSY | HAL_TIMEOUT

text \<open>The address of an \<^verbatim>\<open>I2C_HandleTypeDef\<close>; only its identity matters.\<close>

type_synonym I2C_Handle = nat

datatype hal_call =
    I2C_IsDeviceReady I2C_Handle u16 u32 u32
  | I2C_Master_Transmit I2C_Handle u16 "u8 list" u32
  | I2C_Master_Receive I2C_Handle u16 u16 u32
  | Delay u32

record world =
  uwTick :: u32
  calls :: "hal_call list"

record hal =
  status :: "world \<Rightarrow> hal_call \<Rightarrow> HAL_StatusTypeDef"
  rx_data :: "world \<Rightarrow> hal_call \<Rightarrow> u8 list"
  duration :: "world \<Rightarrow> hal_call \<Rightarrow> u32"

text \<open>Every call is appended to the trace and advances the tick by its duration.\<close>

definition hal_step :: "hal \<Rightarrow> hal_call \<Rightarrow> world \<Rightarrow> world" where
  "hal_step h c w = w\<lparr>uwTick := uwTick w + duration h w c, calls := calls w @ [c]\<rparr>"

definition HAL_I2C_IsDeviceReady ::
  "hal \<Rightarrow> I2C_Handle \<Rightarrow> u16 \<Rightarrow> u32 \<Rightarrow> u32 \<Rightarrow> world \<Rightarrow> HAL_StatusTypeDef \<times> world" where
  "HAL_I2C_IsDeviceReady h hi2c DevAddress Trials Timeout w =
     (let c = I2C_IsDeviceReady hi2c DevAddress Trials Timeout
      in (status h w c, hal_step h c w))"

text \<open>
  A transmit puts the first \<open>Size\<close> bytes at \<open>pData\<close> on the bus in one transaction; the
  trace records exactly these bytes.
\<close>

definition HAL_I2C_Master_Transmit ::
  "hal \<Rightarrow> I2C_Handle \<Rightarrow> u16 \<Rightarrow> u8 list \<Rightarrow> u16 \<Rightarrow> u32 \<Rightarrow> world \<Rightarrow> HAL_StatusTypeDef \<times> world" where
  "HAL_I2C_Master_Transmit h hi2c DevAddress pData Size Timeout w =
     (let c = I2C_Master_Transmit hi2c DevAddress (take (unat Size) pData) Timeout
      in (status h w c, hal_step h c w))"

text \<open>
  A receive asks for \<open>Size\<close> bytes and returns, next to its status, the bytes it stored at
  the front of \<open>pData\<close>: at most \<open>Size\<close> of them, possibly fewer when it fails.
\<close>

definition HAL_I2C_Master_Receive ::
  "hal \<Rightarrow> I2C_Handle \<Rightarrow> u16 \<Rightarrow> u16 \<Rightarrow> u32 \<Rightarrow> world \<Rightarrow> (HAL_StatusTypeDef \<times> u8 list) \<times> world" where
  "HAL_I2C_Master_Receive h hi2c DevAddress Size Timeout w =
     (let c = I2C_Master_Receive hi2c DevAddress Size Timeout
      in ((status h w c, take (unat Size) (rx_data h w c)), hal_step h c w))"

definition HAL_GetTick :: "world \<Rightarrow> u32" where
  "HAL_GetTick w = uwTick w"

definition HAL_Delay :: "hal \<Rightarrow> u32 \<Rightarrow> world \<Rightarrow> world" where
  "HAL_Delay h ms w = hal_step h (Delay ms) w"

section \<open>The driver object\<close>

text \<open>\<^verbatim>\<open>#define EEPROM24_I2C_TIMEOUT 25\<close> (eeprom24.h, line 13).\<close>

definition EEPROM24_I2C_TIMEOUT :: u32 where
  "EEPROM24_I2C_TIMEOUT = 25"

text \<open>The four \<^verbatim>\<open>const\<close> members of class \<^verbatim>\<open>Eeprom24\<close> (eeprom24.h, lines 43 to 46).\<close>

record eeprom24 =
  m_i2c :: I2C_Handle
  m_i2c_address :: u8
  m_sizeInBytes :: u32
  m_pageSizeInBytes :: u16

definition Eeprom24 :: "I2C_Handle \<Rightarrow> u8 \<Rightarrow> u32 \<Rightarrow> u16 \<Rightarrow> eeprom24" where
  "Eeprom24 i2c address sz page =
     \<lparr>m_i2c = i2c, m_i2c_address = address, m_sizeInBytes = sz, m_pageSizeInBytes = page\<rparr>"



definition DEFAULT_ADDRESS :: u8 where
  "DEFAULT_ADDRESS = 0x50"

text \<open>
  \<^verbatim>\<open>devAddress << 1\<close>: the \<^verbatim>\<open>uint8_t\<close> is promoted to \<^verbatim>\<open>int\<close> before the shift, so no
  bit is lost, and the result (at most 510) is passed as the \<^verbatim>\<open>uint16_t DevAddress\<close>.
\<close>

definition shl1 :: "u8 \<Rightarrow> u16" where
  "shl1 devAddress = push_bit 1 (ucast devAddress)"


definition isReady :: "hal \<Rightarrow> eeprom24 \<Rightarrow> world \<Rightarrow> bool \<times> world" where
  "isReady h self w =
     (case HAL_I2C_IsDeviceReady h (m_i2c self) (shl1 (m_i2c_address self)) 1 100 w of
        (retval, w') \<Rightarrow> (retval = HAL_OK, w'))"

text \<open>
  The polling loop of \<^verbatim>\<open>waitForReady\<close> (eeprom24.cpp, lines 41 to 47). It need not terminate,
  so it is a partial function: \<open>None\<close> is the call that never returns. The subtraction
  \<^verbatim>\<open>HAL_GetTick() - start\<close> is on \<^verbatim>\<open>uint32_t\<close> and wraps.
\<close>

partial_function (option) waitForReady_loop ::
  "hal \<Rightarrow> eeprom24 \<Rightarrow> u32 \<Rightarrow> u32 \<Rightarrow> world \<Rightarrow> (bool \<times> world) option" where
  "waitForReady_loop h self start timeout w =
     (case isReady h self w of
        (ready, w1) \<Rightarrow>
          if \<not> ready then
            (let w2 = HAL_Delay h 1 w1
             in if HAL_GetTick w2 - start > timeout then Some (False, w2)
                else waitForReady_loop h self start timeout w2)
          else Some (True, w1))"

declare waitForReady_loop.simps [code]

definition waitForReady :: "hal \<Rightarrow> eeprom24 \<Rightarrow> u32 \<Rightarrow> world \<Rightarrow> (bool \<times> world) option" where
  "waitForReady h self timeout w = waitForReady_loop h self (HAL_GetTick w) timeout w"

section \<open>Byte operations\<close>

text \<open>
  \<^verbatim>\<open>writeByte_internal16\<close> (eeprom24.cpp, lines 62 to 67): the frame is
  \<^verbatim>\<open>{(uint8_t)(byteAddress >> 8), (uint8_t)(byteAddress & 0xFF), data}\<close> and all
  \<^verbatim>\<open>sizeof(tmp)\<close> = 3 bytes are sent.
\<close>

definition writeByte_internal16 ::
  "hal \<Rightarrow> eeprom24 \<Rightarrow> u8 \<Rightarrow> u16 \<Rightarrow> u8 \<Rightarrow> world \<Rightarrow> bool \<times> world" where
  "writeByte_internal16 h self devAddress byteAddress data w =
     (let tmp = [ucast (drop_bit 8 byteAddress), ucast (byteAddress AND 0xFF), data]
      in case HAL_I2C_Master_Transmit h (m_i2c self) (shl1 devAddress) tmp 3
                EEPROM24_I2C_TIMEOUT w of
           (retval, w') \<Rightarrow> (retval = HAL_OK, w'))"

text \<open>
  \<^verbatim>\<open>writeByte_internal8\<close> (eeprom24.cpp, lines 79 to 84) has the same body with a
  \<^verbatim>\<open>uint8_t byteAddress\<close>, which is promoted to \<^verbatim>\<open>int\<close> before \<^verbatim>\<open>>> 8\<close> and \<^verbatim>\<open>& 0xFF\<close>.
\<close>

definition writeByte_internal8 ::
  "hal \<Rightarrow> eeprom24 \<Rightarrow> u8 \<Rightarrow> u8 \<Rightarrow> u8 \<Rightarrow> world \<Rightarrow> bool \<times> world" where
  "writeByte_internal8 h self devAddress byteAddress data w =
     (let tmp = [ucast (drop_bit 8 (ucast byteAddress :: u32)),
                 ucast ((ucast byteAddress :: u32) AND 0xFF), data]
      in case HAL_I2C_Master_Transmit h (m_i2c self) (shl1 devAddress) tmp 3
                EEPROM24_I2C_TIMEOUT w of
           (retval, w') \<Rightarrow> (retval = HAL_OK, w'))"

text \<open>
  The one-byte variable \<^verbatim>\<open>retval\<close> of the byte reads starts at 0 and holds, after the
  receive, the byte the receive stored in it, if it stored one.
\<close>

definition stored_byte :: "u8 \<Rightarrow> u8 list \<Rightarrow> u8" where
  "stored_byte retval bs = (case bs of [] \<Rightarrow> retval | b # _ \<Rightarrow> b)"

text \<open>
  \<^verbatim>\<open>readByte_internal16\<close> (eeprom24.cpp, lines 93 to 101). The status of both HAL calls is
  dropped; the transmit has the literal timeout 25.
\<close>

definition readByte_internal16 ::
  "hal \<Rightarrow> eeprom24 \<Rightarrow> u8 \<Rightarrow> u16 \<Rightarrow> world \<Rightarrow> u8 \<times> world" where
  "readByte_internal16 h self devAddress byteAddress w =
     (let tmp = [ucast (drop_bit 8 byteAddress), ucast (byteAddress AND 0xFF)]
      in case HAL_I2C_Master_Transmit h (m_i2c self) (shl1 devAddress) tmp 2 25 w of
           (_, w1) \<Rightarrow>
             (case HAL_I2C_Master_Receive h (m_i2c self) (shl1 devAddress) 1
                     EEPROM24_I2C_TIMEOUT w1 of
                ((_, bs), w2) \<Rightarrow> (stored_byte 0 bs, w2)))"

text \<open>\<^verbatim>\<open>readByte_internal8\<close> (eeprom24.cpp, lines 110 to 117).\<close>

definition readByte_internal8 ::
  "hal \<Rightarrow> eeprom24 \<Rightarrow> u8 \<Rightarrow> u8 \<Rightarrow> world \<Rightarrow> u8 \<times> world" where
  "readByte_internal8 h self devAddress byteAddress w =
     (case HAL_I2C_Master_Transmit h (m_i2c self) (shl1 devAddress) [byteAddress] 1 25 w of
        (_, w1) \<Rightarrow>
          (case HAL_I2C_Master_Receive h (m_i2c self) (shl1 devAddress) 1
                  EEPROM24_I2C_TIMEOUT w1 of
             ((_, bs), w2) \<Rightarrow> (stored_byte 0 bs, w2)))"

section \<open>Page operations\<close>

text \<open>
  \<^verbatim>\<open>writePage_internal\<close> copies the caller's bytes into a staging array on the stack,
  \<^verbatim>\<open>uint8_t tmp[m_pageSizeInBytes + k]\<close>, behind the \<open>k\<close> address bytes. C++ checks no
  index, so a store past the end of \<open>tmp\<close> and a load past the end of the caller's bytes
  are undefined behaviour; the model makes each of them an error value.
\<close>

datatype error = StagingOutOfBounds | SourceOutOfBounds

text \<open>
  \<^verbatim>\<open>for (uint16_t i = 0; i < length; i++) tmp[i + k] = data[i];\<close>
  The index \<^verbatim>\<open>i + k\<close> is computed in \<^verbatim>\<open>int\<close> and does not wrap.
\<close>

function copy_loop :: "nat \<Rightarrow> u8 list \<Rightarrow> u16 \<Rightarrow> u16 \<Rightarrow> u8 list \<Rightarrow> error + u8 list" where
  "copy_loop k data len i tmp =
     (if i < len then
        (if length data \<le> unat i then Inl SourceOutOfBounds
         else if length tmp \<le> unat i + k then Inl StagingOutOfBounds
         else copy_loop k data len (i + 1) (tmp[unat i + k := data ! unat i]))
      else Inr tmp)"
  by pat_completeness auto
termination
proof (relation "measure (\<lambda>(k, data, len, i, tmp). unat len - unat i)")
  show "wf (measure (\<lambda>(k, data, len, i, tmp). unat len - unat i))"
    by simp
next
  fix k :: nat and data tmp :: "u8 list" and len i :: u16
  assume lt: "i < len"
  then have below: "unat i < unat len"
    by (simp add: word_less_nat_alt)
  moreover have "unat len < 65536"
    using unsigned_less [of len, where 'a = nat] by simp
  ultimately have "Suc (unat i) < 65536"
    by simp
  then have "unat (i + 1) = Suc (unat i)"
    by (simp add: unat_word_ariths)
  with below show "((k, data, len, i + 1, tmp[unat i + k := data ! unat i]), (k, data, len, i, tmp))
        \<in> measure (\<lambda>(k, data, len, i, tmp). unat len - unat i)"
    by simp
qed

declare copy_loop.simps [simp del]

text \<open>
  \<^verbatim>\<open>writePage_internal16\<close> (eeprom24.cpp, lines 131 to 142). The cells of \<open>tmp\<close> start
  uninitialised (written here as 0); the first two are assigned before the copy. The
  \<^verbatim>\<open>int\<close> value \<^verbatim>\<open>length + 2\<close> is converted to the \<^verbatim>\<open>uint16_t Size\<close> of the transmit.
\<close>

definition writePage_internal16 ::
  "hal \<Rightarrow> eeprom24 \<Rightarrow> u8 \<Rightarrow> u16 \<Rightarrow> u8 list \<Rightarrow> u16 \<Rightarrow> world \<Rightarrow> error + bool \<times> world" where
  "writePage_internal16 h self devAddress byteAddress data len w =
     (let tmp0 = replicate (unat (m_pageSizeInBytes self) + 2) (0 :: u8);
          tmp1 = tmp0[0 := ucast (drop_bit 8 byteAddress)];
          tmp2 = tmp1[1 := ucast byteAddress]
      in case copy_loop 2 data len 0 tmp2 of
           Inl e \<Rightarrow> Inl e
         | Inr tmp \<Rightarrow>
             (case HAL_I2C_Master_Transmit h (m_i2c self) (shl1 devAddress) tmp
                     (ucast ((ucast len :: u32) + 2)) EEPROM24_I2C_TIMEOUT w of
                (retval, w') \<Rightarrow> Inr (retval = HAL_OK, w')))"

text \<open>\<^verbatim>\<open>writePage_internal8\<close> (eeprom24.cpp, lines 156 to 166).\<close>

definition writePage_internal8 ::
  "hal \<Rightarrow> eeprom24 \<Rightarrow> u8 \<Rightarrow> u8 \<Rightarrow> u8 list \<Rightarrow> u16 \<Rightarrow> world \<Rightarrow> error + bool \<times> world" where
  "writePage_internal8 h self devAddress byteAddress data len w =
     (let tmp0 = replicate (unat (m_pageSizeInBytes self) + 1) (0 :: u8);
          tmp1 = tmp0[0 := byteAddress]
      in case copy_loop 1 data len 0 tmp1 of
           Inl e \<Rightarrow> Inl e
         | Inr tmp \<Rightarrow>
             (case HAL_I2C_Master_Transmit h (m_i2c self) (shl1 devAddress) tmp
                     (ucast ((ucast len :: u32) + 1)) EEPROM24_I2C_TIMEOUT w of
                (retval, w') \<Rightarrow> Inr (retval = HAL_OK, w')))"

text \<open>
  \<^verbatim>\<open>readPage_internal16\<close> (eeprom24.cpp, lines 177 to 184) returns the status of the receive;
  the bytes the receive stored in the caller's buffer are returned next to it.
\<close>

definition readPage_internal16 ::
  "hal \<Rightarrow> eeprom24 \<Rightarrow> u8 \<Rightarrow> u16 \<Rightarrow> u16 \<Rightarrow> world \<Rightarrow> (bool \<times> u8 list) \<times> world" where
  "readPage_internal16 h self devAddress byteAddress len w =
     (let tmp = [ucast (drop_bit 8 byteAddress), ucast (byteAddress AND 0xFF)]
      in case HAL_I2C_Master_Transmit h (m_i2c self) (shl1 devAddress) tmp 2
                EEPROM24_I2C_TIMEOUT w of
           (_, w1) \<Rightarrow>
             (case HAL_I2C_Master_Receive h (m_i2c self) (shl1 devAddress) len
                     EEPROM24_I2C_TIMEOUT w1 of
                ((retval, bs), w2) \<Rightarrow> ((retval = HAL_OK, bs), w2)))"

text \<open>\<^verbatim>\<open>readPage_internal8\<close> (eeprom24.cpp, lines 195 to 201).\<close>

definition readPage_internal8 ::
  "hal \<Rightarrow> eeprom24 \<Rightarrow> u8 \<Rightarrow> u8 \<Rightarrow> u16 \<Rightarrow> world \<Rightarrow> (bool \<times> u8 list) \<times> world" where
  "readPage_internal8 h self devAddress byteAddress len w =
     (case HAL_I2C_Master_Transmit h (m_i2c self) (shl1 devAddress) [byteAddress] 1
             EEPROM24_I2C_TIMEOUT w of
        (_, w1) \<Rightarrow>
          (case HAL_I2C_Master_Receive h (m_i2c self) (shl1 devAddress) len
                  EEPROM24_I2C_TIMEOUT w1 of
             ((retval, bs), w2) \<Rightarrow> ((retval = HAL_OK, bs), w2)))"

section \<open>The 24x512 chip\<close>

text \<open>Class \<^verbatim>\<open>Eeprom24_512\<close> (eeprom24.h, lines 53 to 64): 16-bit addresses, 128-byte pages.\<close>

definition Eeprom24_512 :: "I2C_Handle \<Rightarrow> u8 \<Rightarrow> eeprom24" where
  "Eeprom24_512 i2c address = Eeprom24 i2c address 65535 128"



definition readByte :: "hal \<Rightarrow> eeprom24 \<Rightarrow> u16 \<Rightarrow> world \<Rightarrow> u8 \<times> world" where
  "readByte h self address w = readByte_internal16 h self (m_i2c_address self) address w"

definition writePage ::
  "hal \<Rightarrow> eeprom24 \<Rightarrow> u16 \<Rightarrow> u8 list \<Rightarrow> u16 \<Rightarrow> world \<Rightarrow> error + bool \<times> world" where
  "writePage h self address data len w =
     writePage_internal16 h self (m_i2c_address self) address data len w"

definition readPage ::
  "hal \<Rightarrow> eeprom24 \<Rightarrow> u16 \<Rightarrow> u16 \<Rightarrow> world \<Rightarrow> (bool \<times> u8 list) \<times> world" where
  "readPage h self address len w =
     readPage_internal16 h self (m_i2c_address self) address len w"

section \<open>Simulated transports and measurements on the trace\<close>

text \<open>A world in which no call has been made yet, at tick \<open>t0\<close>.\<close>

definition fresh :: "u32 \<Rightarrow> world" where
  "fresh t0 = \<lparr>uwTick = t0, calls = []\<rparr>"

fun is_probe :: "hal_call \<Rightarrow> bool" where
  "is_probe (I2C_IsDeviceReady _ _ _ _) = True"
| "is_probe _ = False"

fun is_delay :: "hal_call \<Rightarrow> bool" where
  "is_delay (Delay _) = True"
| "is_delay _ = False"

fun is_transmit :: "hal_call \<Rightarrow> bool" where
  "is_transmit (I2C_Master_Transmit _ _ _ _) = True"
| "is_transmit _ = False"


definition delays :: "world \<Rightarrow> nat" where
  "delays w = length (filter is_delay (calls w))"

text \<open>The probe that \<^verbatim>\<open>isReady\<close> issues.\<close>

definition probe :: "eeprom24 \<Rightarrow> hal_call" where
  "probe self = I2C_IsDeviceReady (m_i2c self) (shl1 (m_i2c_address self)) 1 100"


text \<open>
  A chip that is busy with a write and becomes ready after exactly \<open>k\<close> delay intervals: a
  probe is acknowledged once \<open>k\<close> delays have passed. \<^verbatim>\<open>HAL_Delay(ms)\<close> takes exactly \<open>ms\<close>
  ticks and bus calls take none. \<open>k\<close> is any natural number.
\<close>

definition sim_transport :: "nat \<Rightarrow> hal" where
  "sim_transport k =
     \<lparr>status = (\<lambda>w c. if is_probe c \<and> delays w < k then HAL_ERROR else HAL_OK),
      rx_data = (\<lambda>w c. []),
      duration = (\<lambda>w c. case c of Delay ms \<Rightarrow> ms | _ \<Rightarrow> 0)\<rparr>"

text \<open>
  A chip that is ready at once on a slow bus: every call succeeds, and a probe takes 100
  ticks (the timeout the driver gives it).
\<close>

definition slow_transport :: hal where
  "slow_transport =
     \<lparr>status = (\<lambda>w c. HAL_OK),
      rx_data = (\<lambda>w c. []),
      duration = (\<lambda>w c. if is_probe c then 100 else 0)\<rparr>"


text \<open>
  A bus on which every transmit fails with \<open>HAL_ERROR\<close> while every other call succeeds and
  a receive stores the bytes \<open>bs\<close>.
\<close>

definition nack_transport :: "u8 list \<Rightarrow> hal" where
  "nack_transport bs =
     \<lparr>status = (\<lambda>w c. if is_transmit c then HAL_ERROR else HAL_OK),
      rx_data = (\<lambda>w c. bs),
      duration = (\<lambda>w c. 0)\<rparr>"

text \<open>A bus on which every call succeeds and a receive stores the bytes \<open>bs\<close>.\<close>

definition ok_transport :: "u8 list \<Rightarrow> hal" where
  "ok_transport bs =
     \<lparr>status = (\<lambda>w c. HAL_OK),
      rx_data = (\<lambda>w c. bs),
      duration = (\<lambda>w c. 0)\<rparr>"

text \<open>
  The HAL \<open>h\<close> with the status of every transmit replaced by what \<open>g\<close> says; all other
  statuses, the bytes received and the durations are those of \<open>h\<close>.
\<close>

definition with_transmit_status :: "(world \<Rightarrow> hal_call \<Rightarrow> HAL_StatusTypeDef) \<Rightarrow> hal \<Rightarrow> hal" where
  "with_transmit_status g h =
     h\<lparr>status := (\<lambda>w c. if is_transmit c then g w c else status h w c)\<rparr>"

section \<open>The rounds of the polling loop\<close>

text \<open>
  One round of the loop of \<^verbatim>\<open>waitForReady\<close> is a probe that is not acknowledged and the
  \<^verbatim>\<open>HAL_Delay(1)\<close> after it. \<open>rounds h self n w\<close> is the world after \<open>n\<close> rounds from \<open>w\<close>.
\<close>

primrec rounds :: "hal \<Rightarrow> eeprom24 \<Rightarrow> nat \<Rightarrow> world \<Rightarrow> world" where
  "rounds h self 0 w = w"
| "rounds h self (Suc n) w = rounds h self n (HAL_Delay h 1 (snd (isReady h self w)))"

text \<open>The probe made after \<open>n\<close> rounds is acknowledged.\<close>

definition acked :: "hal \<Rightarrow> eeprom24 \<Rightarrow> world \<Rightarrow> nat \<Rightarrow> bool" where
  "acked h self w n = fst (isReady h self (rounds h self n w))"

text \<open>
  The test \<^verbatim>\<open>HAL_GetTick() - start > timeout\<close>, made at the end of round \<open>n\<close>, holds.
\<close>

definition gives_up :: "hal \<Rightarrow> eeprom24 \<Rightarrow> u32 \<Rightarrow> u32 \<Rightarrow> world \<Rightarrow> nat \<Rightarrow> bool" where
  "gives_up h self start timeout w n = (timeout < HAL_GetTick (rounds h self n w) - start)"

text \<open>
  The loop gets as far as the probe after \<open>n\<close> rounds: no earlier probe was acknowledged and no
  earlier test found the timeout exceeded.
\<close>

primrec reaches :: "hal \<Rightarrow> eeprom24 \<Rightarrow> u32 \<Rightarrow> u32 \<Rightarrow> world \<Rightarrow> nat \<Rightarrow> bool" where
  "reaches h self start timeout w 0 = True"
| "reaches h self start timeout w (Suc n) =
     (reaches h self start timeout w n \<and> \<not> acked h self w n
      \<and> \<not> gives_up h self start timeout w (Suc n))"

section \<open>Calls on one object\<close>





section \<open>Arithmetic of the address bytes\<close>

lemma hi8_of_u8: "(ucast (drop_bit 8 (ucast (b :: u8) :: u32)) :: u8) = 0"
  by (rule bit_word_eqI) (auto simp: bit_simps dest: bit_imp_le_length)

lemma lo8_of_u8: "(ucast ((ucast (b :: u8) :: u32) AND 0xFF) :: u8) = b"
proof -
  have m: "(0xFF :: u32) = mask 8"
    by (simp add: mask_eq_exp_minus_1)
  show ?thesis
    unfolding m by (rule bit_word_eqI) (auto simp: bit_simps)
qed

lemma lo8_of_u16: "(ucast ((a :: u16) AND 0xFF) :: u8) = ucast a"
proof -
  have m: "(0xFF :: u16) = mask 8"
    by (simp add: mask_eq_exp_minus_1)
  show ?thesis
    unfolding m by (rule bit_word_eqI) (auto simp: bit_simps)
qed

section \<open>The HAL calls without their local bindings\<close>

lemma transmit_eq:
  "HAL_I2C_Master_Transmit h hi2c DevAddress pData Size Timeout w =
     (status h w (I2C_Master_Transmit hi2c DevAddress (take (unat Size) pData) Timeout),
      hal_step h (I2C_Master_Transmit hi2c DevAddress (take (unat Size) pData) Timeout) w)"
  by (simp add: HAL_I2C_Master_Transmit_def Let_def)

lemma receive_eq:
  "HAL_I2C_Master_Receive h hi2c DevAddress Size Timeout w =
     ((status h w (I2C_Master_Receive hi2c DevAddress Size Timeout),
       take (unat Size) (rx_data h w (I2C_Master_Receive hi2c DevAddress Size Timeout))),
      hal_step h (I2C_Master_Receive hi2c DevAddress Size Timeout) w)"
  by (simp add: HAL_I2C_Master_Receive_def Let_def)

lemma isReady_eq:
  "isReady h self w = (status h w (probe self) = HAL_OK, hal_step h (probe self) w)"
  by (simp add: isReady_def HAL_I2C_IsDeviceReady_def probe_def Let_def)

lemma calls_hal_step: "calls (hal_step h c w) = calls w @ [c]"
  by (simp add: hal_step_def)

lemma uwTick_hal_step: "uwTick (hal_step h c w) = uwTick w + duration h w c"
  by (simp add: hal_step_def)

lemma delays_hal_step:
  "delays (hal_step h c w) = (if is_delay c then Suc (delays w) else delays w)"
  by (simp add: delays_def hal_step_def)


lemma is_probe_probe: "is_probe (probe self)"
  by (simp add: probe_def)

lemma not_delay_probe: "\<not> is_delay (probe self)"
  by (simp add: probe_def)

section \<open>The copy loop of the page write\<close>

lemma unat_inc_below: "(i :: u16) < len \<Longrightarrow> unat (i + 1) = Suc (unat i)"
proof -
  assume "i < len"
  then have "unat i < unat len"
    by (simp add: word_less_nat_alt)
  moreover have "unat len < 65536"
    using unsigned_less [of len, where 'a = nat] by simp
  ultimately have "Suc (unat i) < 65536"
    by simp
  then show ?thesis
    by (simp add: unat_word_ariths)
qed

lemma copy_loop_in_bounds:
  "unat len \<le> length data \<Longrightarrow> unat len + k \<le> length tmp \<Longrightarrow> i \<le> len \<Longrightarrow>
   copy_loop k data len i tmp =
     Inr (take (unat i + k) tmp @ drop (unat i) (take (unat len) data) @ drop (unat len + k) tmp)"
proof (induction k data len i tmp rule: copy_loop.induct)
  case (1 k data len i tmp)
  show ?case
  proof (cases "i < len")
    case False
    with "1.prems" have "i = len" by simp
    then show ?thesis
      by (subst copy_loop.simps) simp
  next
    case True
    then have lt: "unat i < unat len"
      by (simp add: word_less_nat_alt)
    have suc: "unat (i + 1) = Suc (unat i)"
      using True by (rule unat_inc_below)
    have le: "i + 1 \<le> len"
      using True by (rule inc_le)
    let ?tmp = "tmp[unat i + k := data ! unat i]"
    have a: "\<not> length data \<le> unat i" and b: "\<not> length tmp \<le> unat i + k"
      using lt "1.prems" by simp_all
    have IH: "copy_loop k data len (i + 1) ?tmp =
        Inr (take (unat (i + 1) + k) ?tmp @ drop (unat (i + 1)) (take (unat len) data)
             @ drop (unat len + k) ?tmp)"
      using "1.IH" [OF True a b] "1.prems" le by simp
    have t: "take (Suc (unat i) + k) ?tmp = take (unat i + k) tmp @ [data ! unat i]"
      using b by (simp add: take_Suc_conv_app_nth)
    have d: "drop (unat i) (take (unat len) data) =
        data ! unat i # drop (Suc (unat i)) (take (unat len) data)"
    proof -
      have "unat i < length (take (unat len) data)"
        using lt a by simp
      then have "drop (unat i) (take (unat len) data) =
          take (unat len) data ! unat i # drop (Suc (unat i)) (take (unat len) data)"
        by (rule Cons_nth_drop_Suc [symmetric])
      then show ?thesis
        using lt by simp
    qed
    have e: "drop (unat len + k) ?tmp = drop (unat len + k) tmp"
      using lt by simp
    have step: "copy_loop k data len i tmp = copy_loop k data len (i + 1) ?tmp"
      using True a b by (subst copy_loop.simps) simp
    have "take (unat (i + 1) + k) ?tmp @ drop (unat (i + 1)) (take (unat len) data)
             @ drop (unat len + k) ?tmp =
          take (unat i + k) tmp @ drop (unat i) (take (unat len) data) @ drop (unat len + k) tmp"
      unfolding suc t d e by simp
    with step IH show ?thesis
      by simp
  qed
qed

lemma copy_loop_overflow:
  "unat len \<le> length data \<Longrightarrow> length tmp < unat len + k \<Longrightarrow> unat i + k \<le> length tmp \<Longrightarrow>
   copy_loop k data len i tmp = Inl StagingOutOfBounds"
proof (induction k data len i tmp rule: copy_loop.induct)
  case (1 k data len i tmp)
  from "1.prems" have lt: "unat i < unat len" by simp
  then have True: "i < len"
    by (simp add: word_less_nat_alt)
  have suc: "unat (i + 1) = Suc (unat i)"
    using True by (rule unat_inc_below)
  have a: "\<not> length data \<le> unat i"
    using lt "1.prems" by simp
  show ?case
  proof (cases "length tmp \<le> unat i + k")
    case True
    then show ?thesis
      using \<open>i < len\<close> a by (subst copy_loop.simps) simp
  next
    case False
    then have "copy_loop k data len (i + 1) (tmp[unat i + k := data ! unat i]) = Inl StagingOutOfBounds"
      using "1.IH" [OF \<open>i < len\<close> a False] "1.prems" suc by simp
    then show ?thesis
      using \<open>i < len\<close> a False by (subst copy_loop.simps) simp
  qed
qed

lemma copy_loop_not_staging:
  "unat len + k \<le> length tmp \<Longrightarrow> copy_loop k data len i tmp \<noteq> Inl StagingOutOfBounds"
proof (induction k data len i tmp rule: copy_loop.induct)
  case (1 k data len i tmp)
  show ?case
  proof (cases "i < len \<and> \<not> length data \<le> unat i")
    case False
    then show ?thesis
      by (subst copy_loop.simps) auto
  next
    case True
    then have lt: "unat i < unat len"
      by (simp add: word_less_nat_alt)
    then have b: "\<not> length tmp \<le> unat i + k"
      using "1.prems" by simp
    have "copy_loop k data len (i + 1) (tmp[unat i + k := data ! unat i]) \<noteq> Inl StagingOutOfBounds"
      using "1.IH" True b "1.prems" by simp
    then show ?thesis
      using True b by (subst copy_loop.simps) simp
  qed
qed

section \<open>The page write, in and out of bounds\<close>

text \<open>The \<^verbatim>\<open>int\<close> sums \<^verbatim>\<open>length + 2\<close> and \<^verbatim>\<open>length + 1\<close>, converted to \<^verbatim>\<open>uint16_t\<close>, wrap at 65536.\<close>

lemma size16_2: "(ucast ((ucast (len :: u16) :: u32) + 2) :: u16) = len + 2"
proof -
  have l: "unat len < 65536"
    using unsigned_less [of len, where 'a = nat] by simp
  then have "unat len + 2 < 4294967296"
    by simp
  then show ?thesis
    using l by (simp add: word_unat_eq_iff unat_word_ariths unsigned_ucast_eq take_bit_eq_mod)
qed
lemma size16_1: "(ucast ((ucast (len :: u16) :: u32) + 1) :: u16) = len + 1"
proof -
  have l: "unat len < 65536"
    using unsigned_less [of len, where 'a = nat] by simp
  then have "unat len + 1 < 4294967296"
    by simp
  then show ?thesis
    using l by (simp add: word_unat_eq_iff unat_word_ariths unsigned_ucast_eq take_bit_eq_mod)
qed

lemma staging16:
  "(replicate (n + 2) (0 :: u8))[0 := x, 1 := y] = [x, y] @ replicate n 0"
  by (simp add: numeral_2_eq_2)

lemma staging8:
  "(replicate (n + 1) (0 :: u8))[0 := x] = [x] @ replicate n 0"
  by simp

lemma writePage_internal16_in_bounds:
  assumes "unat len \<le> unat (m_pageSizeInBytes self)" and "unat len \<le> length data"
  shows "writePage_internal16 h self devAddress byteAddress data len w =
     Inr (status h w (I2C_Master_Transmit (m_i2c self) (shl1 devAddress)
            (take (unat (len + 2))
               ([ucast (drop_bit 8 byteAddress), ucast byteAddress] @ take (unat len) data
                @ replicate (unat (m_pageSizeInBytes self) - unat len) 0))
            EEPROM24_I2C_TIMEOUT) = HAL_OK,
          hal_step h (I2C_Master_Transmit (m_i2c self) (shl1 devAddress)
            (take (unat (len + 2))
               ([ucast (drop_bit 8 byteAddress), ucast byteAddress] @ take (unat len) data
                @ replicate (unat (m_pageSizeInBytes self) - unat len) 0))
            EEPROM24_I2C_TIMEOUT) w)"
proof -
  let ?tmp = "[ucast (drop_bit 8 byteAddress), ucast byteAddress]
               @ replicate (unat (m_pageSizeInBytes self)) (0 :: u8)"
  let ?full = "[ucast (drop_bit 8 byteAddress), ucast byteAddress] @ take (unat len) data
                @ replicate (unat (m_pageSizeInBytes self) - unat len) (0 :: u8)"
  have st: "(replicate (unat (m_pageSizeInBytes self) + 2) (0 :: u8))
      [0 := ucast (drop_bit 8 byteAddress), 1 := ucast byteAddress] = ?tmp"
    by (rule staging16)
  have c0: "copy_loop 2 data len 0 ?tmp =
      Inr (take (unat (0 :: u16) + 2) ?tmp @ drop (unat (0 :: u16)) (take (unat len) data)
           @ drop (unat len + 2) ?tmp)"
    using assms by (intro copy_loop_in_bounds) simp_all
  have sm: "take (unat (0 :: u16) + 2) ?tmp @ drop (unat (0 :: u16)) (take (unat len) data)
           @ drop (unat len + 2) ?tmp = ?full"
    by simp
  show ?thesis
    unfolding writePage_internal16_def Let_def st c0 sm size16_2 transmit_eq
    by (simp only: sum.case prod.case)
qed

lemma writePage_internal8_in_bounds:
  assumes "unat len \<le> unat (m_pageSizeInBytes self)" and "unat len \<le> length data"
  shows "writePage_internal8 h self devAddress byteAddress data len w =
     Inr (status h w (I2C_Master_Transmit (m_i2c self) (shl1 devAddress)
            (take (unat (len + 1))
               ([byteAddress] @ take (unat len) data
                @ replicate (unat (m_pageSizeInBytes self) - unat len) 0))
            EEPROM24_I2C_TIMEOUT) = HAL_OK,
          hal_step h (I2C_Master_Transmit (m_i2c self) (shl1 devAddress)
            (take (unat (len + 1))
               ([byteAddress] @ take (unat len) data
                @ replicate (unat (m_pageSizeInBytes self) - unat len) 0))
            EEPROM24_I2C_TIMEOUT) w)"
proof -
  let ?tmp = "[byteAddress] @ replicate (unat (m_pageSizeInBytes self)) (0 :: u8)"
  let ?full = "[byteAddress] @ take (unat len) data
                @ replicate (unat (m_pageSizeInBytes self) - unat len) (0 :: u8)"
  have st: "(replicate (unat (m_pageSizeInBytes self) + 1) (0 :: u8))[0 := byteAddress] = ?tmp"
    by (rule staging8)
  have c0: "copy_loop 1 data len 0 ?tmp =
      Inr (take (unat (0 :: u16) + 1) ?tmp @ drop (unat (0 :: u16)) (take (unat len) data)
           @ drop (unat len + 1) ?tmp)"
    using assms by (intro copy_loop_in_bounds) simp_all
  have sm: "take (unat (0 :: u16) + 1) ?tmp @ drop (unat (0 :: u16)) (take (unat len) data)
           @ drop (unat len + 1) ?tmp = ?full"
    by simp
  show ?thesis
    unfolding writePage_internal8_def Let_def st c0 sm size16_1 transmit_eq
    by (simp only: sum.case prod.case)
qed

lemma writePage_internal16_overflow:
  assumes "unat (m_pageSizeInBytes self) < unat len" and "unat len \<le> length data"
  shows "writePage_internal16 h self devAddress byteAddress data len w = Inl StagingOutOfBounds"
proof -
  have "copy_loop 2 data len 0
      ((replicate (unat (m_pageSizeInBytes self) + 2) (0 :: u8))
         [0 := ucast (drop_bit 8 byteAddress), 1 := ucast byteAddress]) = Inl StagingOutOfBounds"
    using assms by (intro copy_loop_overflow) simp_all
  then show ?thesis
    by (simp add: writePage_internal16_def)
qed

lemma writePage_internal8_overflow:
  assumes "unat (m_pageSizeInBytes self) < unat len" and "unat len \<le> length data"
  shows "writePage_internal8 h self devAddress byteAddress data len w = Inl StagingOutOfBounds"
proof -
  have "copy_loop 1 data len 0
      ((replicate (unat (m_pageSizeInBytes self) + 1) (0 :: u8))[0 := byteAddress]) =
        Inl StagingOutOfBounds"
    using assms by (intro copy_loop_overflow) simp_all
  then show ?thesis
    by (simp add: writePage_internal8_def)
qed

lemma writePage_internal16_not_staging:
  assumes "unat len \<le> unat (m_pageSizeInBytes self)"
  shows "writePage_internal16 h self devAddress byteAddress data len w \<noteq> Inl StagingOutOfBounds"
proof -
  have "copy_loop 2 data len 0
      ((replicate (unat (m_pageSizeInBytes self) + 2) (0 :: u8))
         [0 := ucast (drop_bit 8 byteAddress), 1 := ucast byteAddress]) \<noteq> Inl StagingOutOfBounds"
    using assms by (intro copy_loop_not_staging) simp
  then show ?thesis
    by (auto simp: writePage_internal16_def transmit_eq split: sum.splits)
qed

lemma writePage_internal8_not_staging:
  assumes "unat len \<le> unat (m_pageSizeInBytes self)"
  shows "writePage_internal8 h self devAddress byteAddress data len w \<noteq> Inl StagingOutOfBounds"
proof -
  have "copy_loop 1 data len 0
      ((replicate (unat (m_pageSizeInBytes self) + 1) (0 :: u8))[0 := byteAddress]) \<noteq>
        Inl StagingOutOfBounds"
    using assms by (intro copy_loop_not_staging) simp
  then show ?thesis
    by (auto simp: writePage_internal8_def transmit_eq split: sum.splits)
qed

lemma writePage_internal16_outcomes:
  "(\<exists>e. writePage_internal16 h self devAddress a16 data len w = Inl e) \<or>
   (\<exists>frame. writePage_internal16 h self devAddress a16 data len w =
      Inr (status h w (I2C_Master_Transmit (m_i2c self) (shl1 devAddress) frame
                         EEPROM24_I2C_TIMEOUT) = HAL_OK,
           hal_step h (I2C_Master_Transmit (m_i2c self) (shl1 devAddress) frame
                         EEPROM24_I2C_TIMEOUT) w))"
  by (cases "copy_loop 2 data len 0
        ((replicate (unat (m_pageSizeInBytes self) + 2) (0 :: u8))
           [0 := ucast (drop_bit 8 a16), 1 := ucast a16])")
    (auto simp add: writePage_internal16_def transmit_eq)

lemma writePage_internal8_outcomes:
  "(\<exists>e. writePage_internal8 h self devAddress a8 data len w = Inl e) \<or>
   (\<exists>frame. writePage_internal8 h self devAddress a8 data len w =
      Inr (status h w (I2C_Master_Transmit (m_i2c self) (shl1 devAddress) frame
                         EEPROM24_I2C_TIMEOUT) = HAL_OK,
           hal_step h (I2C_Master_Transmit (m_i2c self) (shl1 devAddress) frame
                         EEPROM24_I2C_TIMEOUT) w))"
  by (cases "copy_loop 1 data len 0
        ((replicate (unat (m_pageSizeInBytes self) + 1) (0 :: u8))[0 := a8])")
    (auto simp add: writePage_internal8_def transmit_eq)

lemma writePage_internal16_frame:
  assumes "unat len \<le> unat (m_pageSizeInBytes self)" and "unat len \<le> length data"
    and "unat len + 2 < 65536"
  shows "writePage_internal16 h self devAddress byteAddress data len w =
     Inr (status h w (I2C_Master_Transmit (m_i2c self) (shl1 devAddress)
            ([ucast (drop_bit 8 byteAddress), ucast byteAddress] @ take (unat len) data)
            EEPROM24_I2C_TIMEOUT) = HAL_OK,
          hal_step h (I2C_Master_Transmit (m_i2c self) (shl1 devAddress)
            ([ucast (drop_bit 8 byteAddress), ucast byteAddress] @ take (unat len) data)
            EEPROM24_I2C_TIMEOUT) w)"
proof -
  have "unat (len + 2) = unat len + 2"
    using assms(3) by (simp add: unat_word_ariths)
  then have "take (unat (len + 2))
               ([ucast (drop_bit 8 byteAddress), ucast byteAddress] @ take (unat len) data
                @ replicate (unat (m_pageSizeInBytes self) - unat len) 0) =
             [ucast (drop_bit 8 byteAddress), ucast byteAddress] @ take (unat len) data"
    using assms(2) by simp
  then show ?thesis
    using writePage_internal16_in_bounds [OF assms(1,2), of h devAddress byteAddress w] by simp
qed

lemma writePage_internal8_frame:
  assumes "unat len \<le> unat (m_pageSizeInBytes self)" and "unat len \<le> length data"
    and "unat len + 1 < 65536"
  shows "writePage_internal8 h self devAddress byteAddress data len w =
     Inr (status h w (I2C_Master_Transmit (m_i2c self) (shl1 devAddress)
            ([byteAddress] @ take (unat len) data)
            EEPROM24_I2C_TIMEOUT) = HAL_OK,
          hal_step h (I2C_Master_Transmit (m_i2c self) (shl1 devAddress)
            ([byteAddress] @ take (unat len) data)
            EEPROM24_I2C_TIMEOUT) w)"
proof -
  have "unat (len + 1) = unat len + 1"
    using assms(3) by (simp add: unat_word_ariths)
  then have "take (unat (len + 1))
               ([byteAddress] @ take (unat len) data
                @ replicate (unat (m_pageSizeInBytes self) - unat len) 0) =
             [byteAddress] @ take (unat len) data"
    using assms(2) by simp
  then show ?thesis
    using writePage_internal8_in_bounds [OF assms(1,2), of h devAddress byteAddress w] by simp
qed

text \<open>
  The write family on the calls whose behaviour is defined: a byte write is exactly one
  transmit, and its result is whether the status of that transmit is \<open>HAL_OK\<close>; a page
  write either runs out of bounds in its copy or does the same with some frame, and it
  does the latter when \<open>length\<close> is at most the page size and the data has \<open>length\<close> bytes.
\<close>

lemma write_family_defined_calls:
  "writeByte_internal16 h self devAddress a16 d w =
     (status h w (I2C_Master_Transmit (m_i2c self) (shl1 devAddress)
        [ucast (drop_bit 8 a16), ucast a16, d] EEPROM24_I2C_TIMEOUT) = HAL_OK,
      hal_step h (I2C_Master_Transmit (m_i2c self) (shl1 devAddress)
        [ucast (drop_bit 8 a16), ucast a16, d] EEPROM24_I2C_TIMEOUT) w) \<and>
   writeByte_internal8 h self devAddress a8 d w =
     (status h w (I2C_Master_Transmit (m_i2c self) (shl1 devAddress)
        [0, a8, d] EEPROM24_I2C_TIMEOUT) = HAL_OK,
      hal_step h (I2C_Master_Transmit (m_i2c self) (shl1 devAddress)
        [0, a8, d] EEPROM24_I2C_TIMEOUT) w) \<and>
   ((\<exists>e. writePage_internal16 h self devAddress a16 data len w = Inl e) \<or>
    (\<exists>frame. writePage_internal16 h self devAddress a16 data len w =
        Inr (status h w (I2C_Master_Transmit (m_i2c self) (shl1 devAddress) frame
                           EEPROM24_I2C_TIMEOUT) = HAL_OK,
             hal_step h (I2C_Master_Transmit (m_i2c self) (shl1 devAddress) frame
                           EEPROM24_I2C_TIMEOUT) w))) \<and>
   ((\<exists>e. writePage_internal8 h self devAddress a8 data len w = Inl e) \<or>
    (\<exists>frame. writePage_internal8 h self devAddress a8 data len w =
        Inr (status h w (I2C_Master_Transmit (m_i2c self) (shl1 devAddress) frame
                           EEPROM24_I2C_TIMEOUT) = HAL_OK,
             hal_step h (I2C_Master_Transmit (m_i2c self) (shl1 devAddress) frame
                           EEPROM24_I2C_TIMEOUT) w))) \<and>
   (unat len \<le> unat (m_pageSizeInBytes self) \<and> unat len \<le> length data \<longrightarrow>
     (\<exists>frame. writePage_internal16 h self devAddress a16 data len w =
        Inr (status h w (I2C_Master_Transmit (m_i2c self) (shl1 devAddress) frame
                           EEPROM24_I2C_TIMEOUT) = HAL_OK,
             hal_step h (I2C_Master_Transmit (m_i2c self) (shl1 devAddress) frame
                           EEPROM24_I2C_TIMEOUT) w)) \<and>
     (\<exists>frame. writePage_internal8 h self devAddress a8 data len w =
        Inr (status h w (I2C_Master_Transmit (m_i2c self) (shl1 devAddress) frame
                           EEPROM24_I2C_TIMEOUT) = HAL_OK,
             hal_step h (I2C_Master_Transmit (m_i2c self) (shl1 devAddress) frame
                           EEPROM24_I2C_TIMEOUT) w)))"
proof -
  have b16: "writeByte_internal16 h self devAddress a16 d w =
     (status h w (I2C_Master_Transmit (m_i2c self) (shl1 devAddress)
        [ucast (drop_bit 8 a16), ucast a16, d] EEPROM24_I2C_TIMEOUT) = HAL_OK,
      hal_step h (I2C_Master_Transmit (m_i2c self) (shl1 devAddress)
        [ucast (drop_bit 8 a16), ucast a16, d] EEPROM24_I2C_TIMEOUT) w)"
    by (simp add: writeByte_internal16_def transmit_eq lo8_of_u16 Let_def)
  have b8: "writeByte_internal8 h self devAddress a8 d w =
     (status h w (I2C_Master_Transmit (m_i2c self) (shl1 devAddress)
        [0, a8, d] EEPROM24_I2C_TIMEOUT) = HAL_OK,
      hal_step h (I2C_Master_Transmit (m_i2c self) (shl1 devAddress)
        [0, a8, d] EEPROM24_I2C_TIMEOUT) w)"
    by (simp add: writeByte_internal8_def transmit_eq hi8_of_u8 lo8_of_u8 Let_def)
  show ?thesis
    using b16 b8 writePage_internal16_outcomes [of h self devAddress a16 data len w]
      writePage_internal8_outcomes [of h self devAddress a8 data len w]
      writePage_internal16_in_bounds [of len self data h devAddress a16 w]
      writePage_internal8_in_bounds [of len self data h devAddress a8 w]
    by blast
qed


section \<open>The polling loop\<close>

text \<open>
  Against the simulated chip, from any world in which \<open>j\<close> delays have passed since the
  start of the call, the loop makes the remaining rounds and then returns.
\<close>

lemma not_max_below: "(timeout :: u32) \<noteq> - 1 \<Longrightarrow> unat timeout < 2 ^ 32 - 1"
proof -
  assume ne: "timeout \<noteq> - 1"
  have "unat timeout \<noteq> unat (- 1 :: u32)"
    using ne by (simp only: word_unat_eq_iff [symmetric] not_False_eq_True)
  moreover have "unat (- 1 :: u32) = 2 ^ 32 - 1"
    by (simp add: unsigned_minus_1_eq_mask mask_eq_exp_minus_1)
  moreover have "unat timeout < 2 ^ 32"
    using unsigned_less [of timeout, where 'a = nat] by simp
  ultimately show ?thesis
    by simp
qed

lemma sim_loop:
  fixes timeout start :: u32 and k :: nat
  assumes "ok = (k \<le> unat timeout \<or> timeout = - 1)"
    and "n = (if ok then k else Suc (unat timeout))"
    and "delays w = j" and "uwTick w - start = of_nat j" and "j \<le> k"
    and "timeout \<noteq> - 1 \<longrightarrow> j \<le> unat timeout"
  shows "waitForReady_loop (sim_transport k) self start timeout w =
     Some (ok,
           \<lparr>uwTick = uwTick w + of_nat (n - j),
            calls = calls w @ concat (replicate (n - j) [probe self, Delay 1])
                    @ (if ok then [probe self] else [])\<rparr>)"
  using assms
proof (induction "n - j" arbitrary: w j)
  case 0
  have ok: ok
  proof (rule ccontr)
    assume "\<not> ok"
    with 0 show False by auto
  qed
  with 0 have jk: "j = k"
    by simp
  have "isReady (sim_transport k) self w = (True, hal_step (sim_transport k) (probe self) w)"
    using 0 jk by (simp add: isReady_eq sim_transport_def)
  then show ?case
    using 0 ok
    by (subst waitForReady_loop.simps) (simp add: hal_step_def sim_transport_def probe_def)
next
  case (Suc m)
  let ?h = "sim_transport k"
  let ?w1 = "hal_step ?h (probe self) w"
  let ?w2 = "hal_step ?h (Delay 1) ?w1"
  have jk: "j < k"
  proof (cases ok)
    case True
    with Suc.hyps(2) Suc.prems(2) show ?thesis by simp
  next
    case False
    with Suc.prems(1,6) show ?thesis by simp
  qed
  have nr: "isReady ?h self w = (False, ?w1)"
    using Suc.prems jk by (simp add: isReady_eq sim_transport_def is_probe_probe)
  have tick2: "uwTick ?w2 = uwTick w + 1"
    by (simp add: hal_step_def sim_transport_def probe_def)
  have calls2: "calls ?w2 = calls w @ [probe self, Delay 1]"
    by (simp add: hal_step_def)
  have el: "uwTick ?w2 - start = of_nat (Suc j)"
    using Suc.prems(4) by (simp add: tick2)
  have cmp: "timeout < HAL_GetTick ?w2 - start \<longleftrightarrow> timeout \<noteq> - 1 \<and> unat timeout < Suc j"
  proof (cases "timeout = - 1")
    case True
    then show ?thesis by simp
  next
    case False
    then have "j \<le> unat timeout" and "unat timeout < 2 ^ 32 - 1"
      using Suc.prems(6) not_max_below by simp_all
    then have "Suc j < 2 ^ 32"
      by simp
    then have "unat (of_nat (Suc j) :: u32) = Suc j"
      by (simp add: unat_of_nat del: of_nat_Suc)
    with False show ?thesis
      unfolding HAL_GetTick_def el word_less_nat_alt by simp
  qed
  show ?case
  proof (cases "timeout \<noteq> - 1 \<and> unat timeout < Suc j")
    case True
    then have jt: "j = unat timeout"
      using Suc.prems(6) by simp
    have nok: "\<not> ok"
      using True jt jk Suc.prems(1) by simp
    have nj: "n - j = 1"
      using Suc.prems(2) nok jt by simp
    have "waitForReady_loop ?h self start timeout w = Some (False, ?w2)"
      using nr cmp True by (subst waitForReady_loop.simps) (simp add: HAL_Delay_def Let_def)
    also have "?w2 = \<lparr>uwTick = uwTick w + of_nat (n - j),
            calls = calls w @ concat (replicate (n - j) [probe self, Delay 1])
                    @ (if ok then [probe self] else [])\<rparr>"
      using nok nj tick2 calls2 by simp
    finally show ?thesis
      using nok by simp
  next
    case False
    have m: "m = n - Suc j"
      using Suc.hyps(2) by simp
    have d2: "delays ?w2 = Suc j"
      using Suc.prems(3) by (simp add: delays_hal_step not_delay_probe)
    have le: "Suc j \<le> k"
      using jk by simp
    have inv: "timeout \<noteq> - 1 \<longrightarrow> Suc j \<le> unat timeout"
      using False by auto
    have IH: "waitForReady_loop ?h self start timeout ?w2 =
       Some (ok,
           \<lparr>uwTick = uwTick ?w2 + of_nat (n - Suc j),
            calls = calls ?w2 @ concat (replicate (n - Suc j) [probe self, Delay 1])
                    @ (if ok then [probe self] else [])\<rparr>)"
      by (rule Suc.hyps(1) [OF m Suc.prems(1) Suc.prems(2) d2 el le inv])
    have nj: "n - j = Suc (n - Suc j)"
      using Suc.hyps(2) by simp
    have "waitForReady_loop ?h self start timeout w =
        waitForReady_loop ?h self start timeout ?w2"
      using nr cmp False by (subst waitForReady_loop.simps) (simp add: HAL_Delay_def Let_def)
    then show ?thesis
      unfolding IH nj tick2 calls2 by simp
  qed
qed

text \<open>
  The simulated chip from a fresh world: the call returns true exactly when \<open>k\<close> is at most
  the timeout or the timeout is \<open>0xFFFFFFFF\<close>, which no elapsed time exceeds.
\<close>

lemma waitForReady_sim_exact:
  fixes timeout t0 :: u32 and k :: nat
  shows "waitForReady (sim_transport k) self timeout (fresh t0) =
     Some (k \<le> unat timeout \<or> timeout = - 1,
           \<lparr>uwTick = t0 + of_nat (if k \<le> unat timeout \<or> timeout = - 1 then k
                                     else Suc (unat timeout)),
            calls = concat (replicate (if k \<le> unat timeout \<or> timeout = - 1 then k
                                        else Suc (unat timeout)) [probe self, Delay 1])
                    @ (if k \<le> unat timeout \<or> timeout = - 1 then [probe self] else [])\<rparr>)"
proof -
  have d: "delays (fresh t0) = 0"
    by (simp add: delays_def fresh_def)
  have e: "uwTick (fresh t0) - uwTick (fresh t0) = of_nat 0"
    by simp
  have "waitForReady_loop (sim_transport k) self (uwTick (fresh t0)) timeout (fresh t0) =
     Some (k \<le> unat timeout \<or> timeout = - 1,
           \<lparr>uwTick = uwTick (fresh t0) + of_nat ((if k \<le> unat timeout \<or> timeout = - 1 then k
                                     else Suc (unat timeout)) - 0),
            calls = calls (fresh t0) @ concat (replicate ((if k \<le> unat timeout \<or> timeout = - 1 then k
                                        else Suc (unat timeout)) - 0) [probe self, Delay 1])
                    @ (if k \<le> unat timeout \<or> timeout = - 1 then [probe self] else [])\<rparr>)"
    by (rule sim_loop [OF refl refl d e]) simp_all
  then show ?thesis
    by (simp add: waitForReady_def HAL_GetTick_def fresh_def del: of_nat_Suc)
qed

text \<open>The rounds in general: their trace, and how the loop follows them.\<close>

lemma calls_rounds:
  "calls (rounds h self n w) = calls w @ concat (replicate n [probe self, Delay 1])"
proof (induction n arbitrary: w)
  case 0
  show ?case by simp
next
  case (Suc n)
  have "concat (replicate n [probe self, Delay 1]) @ [probe self, Delay 1] =
      [probe self, Delay 1] @ concat (replicate n [probe self, Delay 1])"
    by (induction n) simp_all
  then show ?case
    by (simp add: Suc.IH isReady_eq HAL_Delay_def calls_hal_step)
qed

lemma rounds_Suc_front: "rounds h self (Suc n) w = rounds h self n (rounds h self 1 w)"
  by simp

lemma acked_Suc: "acked h self w (Suc n) = acked h self (rounds h self 1 w) n"
  by (simp add: acked_def)

lemma gives_up_Suc:
  "gives_up h self start timeout w (Suc n) = gives_up h self start timeout (rounds h self 1 w) n"
  by (simp add: gives_up_def)

lemma reaches_Suc_front:
  "reaches h self start timeout w (Suc n) \<longleftrightarrow>
     \<not> acked h self w 0 \<and> \<not> gives_up h self start timeout w 1
     \<and> reaches h self start timeout (rounds h self 1 w) n"
proof (induction n)
  case 0
  show ?case by simp
next
  case (Suc n)
  have "reaches h self start timeout w (Suc (Suc n)) \<longleftrightarrow>
      reaches h self start timeout w (Suc n) \<and> \<not> acked h self w (Suc n)
      \<and> \<not> gives_up h self start timeout w (Suc (Suc n))"
    by simp
  also have "\<dots> \<longleftrightarrow> (\<not> acked h self w 0 \<and> \<not> gives_up h self start timeout w 1
      \<and> reaches h self start timeout (rounds h self 1 w) n)
      \<and> \<not> acked h self (rounds h self 1 w) n
      \<and> \<not> gives_up h self start timeout (rounds h self 1 w) (Suc n)"
    by (simp only: Suc.IH acked_Suc gives_up_Suc)
  also have "\<dots> \<longleftrightarrow> \<not> acked h self w 0 \<and> \<not> gives_up h self start timeout w 1
      \<and> reaches h self start timeout (rounds h self 1 w) (Suc n)"
    by auto
  finally show ?case .
qed

lemma loop_step:
  assumes a: "\<not> acked h self w 0" and g: "\<not> gives_up h self start timeout w 1"
  shows "waitForReady_loop h self start timeout w =
     waitForReady_loop h self start timeout (rounds h self 1 w)"
proof -
  obtain r w1 where eq: "isReady h self w = (r, w1)"
    by (cases "isReady h self w")
  with a have "\<not> r"
    by (simp add: acked_def)
  with g eq show ?thesis
    by (subst waitForReady_loop.simps) (simp add: gives_up_def Let_def)
qed

lemma loop_acked_now:
  assumes "acked h self w 0"
  shows "waitForReady_loop h self start timeout w = Some (True, snd (isReady h self w))"
proof -
  obtain r w1 where eq: "isReady h self w = (r, w1)"
    by (cases "isReady h self w")
  with assms have r
    by (simp add: acked_def)
  with eq show ?thesis
    by (subst waitForReady_loop.simps) simp
qed

lemma loop_gives_up_now:
  assumes a: "\<not> acked h self w 0" and g: "gives_up h self start timeout w 1"
  shows "waitForReady_loop h self start timeout w = Some (False, rounds h self 1 w)"
proof -
  obtain r w1 where eq: "isReady h self w = (r, w1)"
    by (cases "isReady h self w")
  with a have "\<not> r"
    by (simp add: acked_def)
  with g eq show ?thesis
    by (subst waitForReady_loop.simps) (simp add: gives_up_def Let_def)
qed

lemma loop_true:
  "reaches h self start timeout w n \<Longrightarrow> acked h self w n \<Longrightarrow>
   waitForReady_loop h self start timeout w =
     Some (True, snd (isReady h self (rounds h self n w)))"
proof (induction n arbitrary: w)
  case 0
  then show ?case
    by (simp add: loop_acked_now)
next
  case (Suc n)
  from Suc.prems(1) [unfolded reaches_Suc_front]
  have a: "\<not> acked h self w 0" and g: "\<not> gives_up h self start timeout w 1"
    and r: "reaches h self start timeout (rounds h self 1 w) n"
    by blast+
  from Suc.prems(2) [unfolded acked_Suc]
  have "acked h self (rounds h self 1 w) n" .
  with r have "waitForReady_loop h self start timeout (rounds h self 1 w) =
      Some (True, snd (isReady h self (rounds h self n (rounds h self 1 w))))"
    by (rule Suc.IH)
  then show ?case
    by (simp add: loop_step [OF a g])
qed

lemma loop_false:
  "reaches h self start timeout w n \<Longrightarrow> \<not> acked h self w n \<Longrightarrow>
   gives_up h self start timeout w (Suc n) \<Longrightarrow>
   waitForReady_loop h self start timeout w = Some (False, rounds h self (Suc n) w)"
proof (induction n arbitrary: w)
  case 0
  then show ?case
    by (simp add: loop_gives_up_now)
next
  case (Suc n)
  from Suc.prems(1) [unfolded reaches_Suc_front]
  have a: "\<not> acked h self w 0" and g: "\<not> gives_up h self start timeout w 1"
    and r: "reaches h self start timeout (rounds h self 1 w) n"
    by blast+
  from Suc.prems(2) [unfolded acked_Suc]
  have na: "\<not> acked h self (rounds h self 1 w) n" .
  from Suc.prems(3) [unfolded gives_up_Suc [of h self start timeout w "Suc n"]]
  have gu: "gives_up h self start timeout (rounds h self 1 w) (Suc n)" .
  have "waitForReady_loop h self start timeout (rounds h self 1 w) =
      Some (False, rounds h self (Suc n) (rounds h self 1 w))"
    using r na gu by (rule Suc.IH)
  then show ?case
    by (simp add: loop_step [OF a g])
qed

text \<open>Conversely, a call of the loop that returns has followed the rounds to one of these two ends.\<close>

lemma loop_returns_by_rounds:
  assumes "waitForReady_loop h self start timeout w = Some y"
  shows "\<exists>n. reaches h self start timeout w n \<and>
           (if fst y then acked h self w n \<and> snd y = snd (isReady h self (rounds h self n w))
            else \<not> acked h self w n \<and> gives_up h self start timeout w (Suc n)
                 \<and> snd y = rounds h self (Suc n) w)"
proof (rule waitForReady_loop.raw_induct
    [where P = "\<lambda>h self start timeout w y.
       \<exists>n. reaches h self start timeout w n \<and>
           (if fst y then acked h self w n \<and> snd y = snd (isReady h self (rounds h self n w))
            else \<not> acked h self w n \<and> gives_up h self start timeout w (Suc n)
                 \<and> snd y = rounds h self (Suc n) w)", OF _ assms])
  fix loop h self start timeout w y
  assume IH: "\<And>h self start timeout w y. loop h self start timeout w = Some y \<Longrightarrow>
       \<exists>n. reaches h self start timeout w n \<and>
           (if fst y then acked h self w n \<and> snd y = snd (isReady h self (rounds h self n w))
            else \<not> acked h self w n \<and> gives_up h self start timeout w (Suc n)
                 \<and> snd y = rounds h self (Suc n) w)"
    and body: "(case isReady h self w of
        (ready, w1) \<Rightarrow>
          if \<not> ready then
            (let w2 = HAL_Delay h 1 w1
             in if HAL_GetTick w2 - start > timeout then Some (False, w2)
                else loop h self start timeout w2)
          else Some (True, w1)) = Some y"
  let ?goal = "\<exists>n. reaches h self start timeout w n \<and>
           (if fst y then acked h self w n \<and> snd y = snd (isReady h self (rounds h self n w))
            else \<not> acked h self w n \<and> gives_up h self start timeout w (Suc n)
                 \<and> snd y = rounds h self (Suc n) w)"
  show ?goal
  proof (cases "acked h self w 0")
    case True
    with body have "y = (True, snd (isReady h self w))"
      by (cases "isReady h self w") (auto simp: acked_def)
    with True have "reaches h self start timeout w 0 \<and>
           (if fst y then acked h self w 0 \<and> snd y = snd (isReady h self (rounds h self 0 w))
            else \<not> acked h self w 0 \<and> gives_up h self start timeout w (Suc 0)
                 \<and> snd y = rounds h self (Suc 0) w)"
      by simp
    then show ?thesis ..
  next
    case a: False
    show ?thesis
    proof (cases "gives_up h self start timeout w 1")
      case True
      with a body have "y = (False, rounds h self 1 w)"
        by (cases "isReady h self w") (simp add: acked_def gives_up_def Let_def)
      with a True have "reaches h self start timeout w 0 \<and>
           (if fst y then acked h self w 0 \<and> snd y = snd (isReady h self (rounds h self 0 w))
            else \<not> acked h self w 0 \<and> gives_up h self start timeout w (Suc 0)
                 \<and> snd y = rounds h self (Suc 0) w)"
        by simp
      then show ?thesis ..
    next
      case g: False
      with a body have "loop h self start timeout (rounds h self 1 w) = Some y"
        by (cases "isReady h self w") (simp add: acked_def gives_up_def Let_def)
      from IH [OF this] obtain n where
        r: "reaches h self start timeout (rounds h self 1 w) n" and
        e: "if fst y then acked h self (rounds h self 1 w) n
                \<and> snd y = snd (isReady h self (rounds h self n (rounds h self 1 w)))
            else \<not> acked h self (rounds h self 1 w) n
                 \<and> gives_up h self start timeout (rounds h self 1 w) (Suc n)
                 \<and> snd y = rounds h self (Suc n) (rounds h self 1 w)"
        by blast
      have "reaches h self start timeout w (Suc n)"
        using a g r by (simp only: reaches_Suc_front simp_thms)
      moreover have "if fst y then acked h self w (Suc n)
                \<and> snd y = snd (isReady h self (rounds h self (Suc n) w))
            else \<not> acked h self w (Suc n) \<and> gives_up h self start timeout w (Suc (Suc n))
                 \<and> snd y = rounds h self (Suc (Suc n)) w"
        unfolding acked_Suc [of h self w n] gives_up_Suc [of h self start timeout w "Suc n"]
          rounds_Suc_front [of h self "Suc n" w] rounds_Suc_front [of h self n w]
        using e .
      ultimately show ?thesis
        by blast
    qed
  qed
qed




section \<open>Calls and the object\<close>



section \<open>Reads under another transmit status\<close>

lemma hal_step_with_transmit_status:
  "hal_step (with_transmit_status g h) c w = hal_step h c w"
  by (simp add: hal_step_def with_transmit_status_def)

lemma status_with_transmit_status:
  "\<not> is_transmit c \<Longrightarrow> status (with_transmit_status g h) w c = status h w c"
  by (simp add: with_transmit_status_def)

lemma rx_data_with_transmit_status:
  "rx_data (with_transmit_status g h) w c = rx_data h w c"
  by (simp add: with_transmit_status_def)

lemma reads_with_transmit_status:
  "fst (readPage_internal16 (with_transmit_status g h) self devAddress a16 len w) =
     fst (readPage_internal16 h self devAddress a16 len w)"
  "fst (readPage_internal8 (with_transmit_status g h) self devAddress a8 len w) =
     fst (readPage_internal8 h self devAddress a8 len w)"
  "fst (readByte_internal16 (with_transmit_status g h) self devAddress a16 w) =
     fst (readByte_internal16 h self devAddress a16 w)"
  "fst (readByte_internal8 (with_transmit_status g h) self devAddress a8 w) =
     fst (readByte_internal8 h self devAddress a8 w)"
  by (simp_all add: readPage_internal16_def readPage_internal8_def readByte_internal16_def
      readByte_internal8_def transmit_eq receive_eq Let_def hal_step_with_transmit_status
      status_with_transmit_status rx_data_with_transmit_status)

section \<open>Concrete runs\<close>

text \<open>
  The polling loop at the boundary of its timeout (the last run starts two ticks before the
  tick counter wraps), and the page write and page read of 50 bytes at offset 100 on the
  24x512 chip.
\<close>

lemma waitForReady_at_the_boundary:
  "map_option fst (waitForReady (sim_transport 3) (Eeprom24_512 0 DEFAULT_ADDRESS) 3 (fresh 7)) = Some True"
  "map_option fst (waitForReady (sim_transport 3) (Eeprom24_512 0 DEFAULT_ADDRESS) 2 (fresh 7)) = Some False"
  "map_option fst (waitForReady (sim_transport 0) (Eeprom24_512 0 DEFAULT_ADDRESS) 0 (fresh 7)) = Some True"
  "map_option fst (waitForReady (sim_transport 5) (Eeprom24_512 0 DEFAULT_ADDRESS) 3 (fresh 0xFFFFFFFE)) = Some False"
  by code_simp+

lemma page_write_then_read_scenario:
  "writePage (ok_transport (map of_nat [1..<51])) (Eeprom24_512 0 DEFAULT_ADDRESS) 100
       (map of_nat [1..<51]) 50 (fresh 0) =
     Inr (True, \<lparr>uwTick = 0,
                 calls = [I2C_Master_Transmit 0 0xA0 ([0, 100] @ map of_nat [1..<51]) 25]\<rparr>)"
  "readPage (ok_transport (map of_nat [1..<51])) (Eeprom24_512 0 DEFAULT_ADDRESS) 100 50 (fresh 0) =
     ((True, map of_nat [1..<51]),
      \<lparr>uwTick = 0,
       calls = [I2C_Master_Transmit 0 0xA0 [0, 100] 25, I2C_Master_Receive 0 0xA0 50 25]\<rparr>)"
  by code_simp+

section \<open>The claims\<close>

text \<open>
  C1 (the claim: in every operation the address prefix at the front of the frame is exactly
  1 byte, the low byte of the offset, for an 8-bit device and exactly 2 bytes, high byte
  first, for a 16-bit device). The byte write for 8-bit devices does not do this: on every
  input it sends the three bytes \<open>0\<close>, \<open>byteAddress\<close>, \<open>data\<close>, that is a two-byte prefix
  whose first byte is always 0, where the 8-bit page write and the 8-bit reads send the
  single byte \<open>byteAddress\<close>.
\<close>

theorem writeByte_internal8_sends_three_bytes:
  "writeByte_internal8 h self devAddress byteAddress data w =
     (status h w (I2C_Master_Transmit (m_i2c self) (shl1 devAddress)
                    [0, byteAddress, data] EEPROM24_I2C_TIMEOUT) = HAL_OK,
      hal_step h (I2C_Master_Transmit (m_i2c self) (shl1 devAddress)
                    [0, byteAddress, data] EEPROM24_I2C_TIMEOUT) w)"
  by (simp add: writeByte_internal8_def transmit_eq hi8_of_u8 lo8_of_u8 Let_def)

text \<open>
  C2 (the claim: \<open>waitForReady(timeoutMs)\<close> probes at a fixed 1 ms interval and returns true
  iff readiness is observed before the elapsed time exceeds \<open>timeoutMs\<close>; against a transport
  that becomes ready after exactly \<open>k\<close> probe intervals it returns true iff
  \<open>k \<le> timeoutMs\<close>). What the loop does, for every HAL: consecutive probes are one
  \<^verbatim>\<open>HAL_Delay(1)\<close> apart; the call returns true as soon as a probe is acknowledged, without
  looking at the time, and false as soon as the test after a delay finds the elapsed ticks
  greater than the timeout; a call that returns has ended in one of these two ways.
  Against the simulated chip it returns true exactly when \<open>k \<le> timeout\<close> or the timeout is
  \<open>0xFFFFFFFF\<close>, so for every \<open>k\<close> below \<open>2 ^ 32\<close> exactly when \<open>k \<le> timeout\<close>.
\<close>

theorem waitForReady_by_rounds:
  fixes timeout t0 :: u32 and k :: nat
  shows
  "calls (rounds h self n w) = calls w @ concat (replicate n [probe self, Delay 1]) \<and>
   (reaches h self (HAL_GetTick w) timeout w n \<and> acked h self w n \<longrightarrow>
      waitForReady h self timeout w = Some (True, snd (isReady h self (rounds h self n w)))) \<and>
   (reaches h self (HAL_GetTick w) timeout w n \<and> \<not> acked h self w n
      \<and> gives_up h self (HAL_GetTick w) timeout w (Suc n) \<longrightarrow>
      waitForReady h self timeout w = Some (False, rounds h self (Suc n) w)) \<and>
   (waitForReady h self timeout w = Some (b, w') \<longrightarrow>
      (\<exists>m. reaches h self (HAL_GetTick w) timeout w m \<and>
         (if b then acked h self w m \<and> w' = snd (isReady h self (rounds h self m w))
          else \<not> acked h self w m \<and> gives_up h self (HAL_GetTick w) timeout w (Suc m)
               \<and> w' = rounds h self (Suc m) w))) \<and>
   waitForReady (sim_transport k) self timeout (fresh t0) =
     Some (k \<le> unat timeout \<or> timeout = - 1,
           \<lparr>uwTick = t0 + of_nat (if k \<le> unat timeout \<or> timeout = - 1 then k
                                     else Suc (unat timeout)),
            calls = concat (replicate (if k \<le> unat timeout \<or> timeout = - 1 then k
                                        else Suc (unat timeout)) [probe self, Delay 1])
                    @ (if k \<le> unat timeout \<or> timeout = - 1 then [probe self] else [])\<rparr>) \<and>
   (k < 2 ^ 32 \<longrightarrow>
      map_option fst (waitForReady (sim_transport k) self timeout (fresh t0)) =
        Some (k \<le> unat timeout))"
proof (intro conjI impI)
  show "calls (rounds h self n w) = calls w @ concat (replicate n [probe self, Delay 1])"
    by (rule calls_rounds)
next
  assume "reaches h self (HAL_GetTick w) timeout w n \<and> acked h self w n"
  then show "waitForReady h self timeout w =
      Some (True, snd (isReady h self (rounds h self n w)))"
    by (simp add: waitForReady_def loop_true)
next
  assume "reaches h self (HAL_GetTick w) timeout w n \<and> \<not> acked h self w n
      \<and> gives_up h self (HAL_GetTick w) timeout w (Suc n)"
  then show "waitForReady h self timeout w = Some (False, rounds h self (Suc n) w)"
    unfolding waitForReady_def by (blast intro: loop_false)
next
  assume "waitForReady h self timeout w = Some (b, w')"
  then have "waitForReady_loop h self (HAL_GetTick w) timeout w = Some (b, w')"
    by (simp only: waitForReady_def)
  from loop_returns_by_rounds [OF this]
  show "\<exists>m. reaches h self (HAL_GetTick w) timeout w m \<and>
         (if b then acked h self w m \<and> w' = snd (isReady h self (rounds h self m w))
          else \<not> acked h self w m \<and> gives_up h self (HAL_GetTick w) timeout w (Suc m)
               \<and> w' = rounds h self (Suc m) w)"
    by (simp only: fst_conv snd_conv)
next
  show "waitForReady (sim_transport k) self timeout (fresh t0) =
     Some (k \<le> unat timeout \<or> timeout = - 1,
           \<lparr>uwTick = t0 + of_nat (if k \<le> unat timeout \<or> timeout = - 1 then k
                                     else Suc (unat timeout)),
            calls = concat (replicate (if k \<le> unat timeout \<or> timeout = - 1 then k
                                        else Suc (unat timeout)) [probe self, Delay 1])
                    @ (if k \<le> unat timeout \<or> timeout = - 1 then [probe self] else [])\<rparr>)"
    by (rule waitForReady_sim_exact)
next
  assume k: "k < 2 ^ 32"
  have "timeout = - 1 \<Longrightarrow> k \<le> unat timeout"
  proof -
    assume "timeout = - 1"
    then have "unat timeout = 2 ^ 32 - 1"
      by (simp add: unsigned_minus_1_eq_mask mask_eq_exp_minus_1)
    with k show ?thesis by simp
  qed
  then have "(k \<le> unat timeout \<or> timeout = - 1) = (k \<le> unat timeout)"
    by blast
  then show "map_option fst (waitForReady (sim_transport k) self timeout (fresh t0)) =
        Some (k \<le> unat timeout)"
    by (simp only: waitForReady_sim_exact option.map fst_conv)
qed

theorem waitForReady_by_rounds_witness:
  "(reaches (sim_transport 1) (Eeprom24_512 0 DEFAULT_ADDRESS) (HAL_GetTick (fresh 0)) 1 (fresh 0) 1
      \<and> acked (sim_transport 1) (Eeprom24_512 0 DEFAULT_ADDRESS) (fresh 0) 1) \<and>
   waitForReady (sim_transport 1) (Eeprom24_512 0 DEFAULT_ADDRESS) 1 (fresh 0) =
     Some (True, snd (isReady (sim_transport 1) (Eeprom24_512 0 DEFAULT_ADDRESS)
                        (rounds (sim_transport 1) (Eeprom24_512 0 DEFAULT_ADDRESS) 1 (fresh 0)))) \<and>
   (reaches (sim_transport 2) (Eeprom24_512 0 DEFAULT_ADDRESS) (HAL_GetTick (fresh 0)) 0 (fresh 0) 0
      \<and> \<not> acked (sim_transport 2) (Eeprom24_512 0 DEFAULT_ADDRESS) (fresh 0) 0
      \<and> gives_up (sim_transport 2) (Eeprom24_512 0 DEFAULT_ADDRESS) (HAL_GetTick (fresh 0)) 0
           (fresh 0) (Suc 0)) \<and>
   waitForReady (sim_transport 2) (Eeprom24_512 0 DEFAULT_ADDRESS) 0 (fresh 0) =
     Some (False, rounds (sim_transport 2) (Eeprom24_512 0 DEFAULT_ADDRESS) (Suc 0) (fresh 0)) \<and>
   (\<exists>m. reaches (sim_transport 2) (Eeprom24_512 0 DEFAULT_ADDRESS) (HAL_GetTick (fresh 0)) 0
          (fresh 0) m
        \<and> \<not> acked (sim_transport 2) (Eeprom24_512 0 DEFAULT_ADDRESS) (fresh 0) m) \<and>
   (3 :: nat) < 2 ^ 32 \<and>
   map_option fst (waitForReady (sim_transport 3) (Eeprom24_512 0 DEFAULT_ADDRESS) 5 (fresh 0)) =
     Some (3 \<le> unat (5 :: u32))"
proof -
  let ?S = "Eeprom24_512 0 DEFAULT_ADDRESS"
  have h1: "reaches (sim_transport 1) ?S (HAL_GetTick (fresh 0)) 1 (fresh 0) 1
      \<and> acked (sim_transport 1) ?S (fresh 0) 1"
    by code_simp
  have h2: "reaches (sim_transport 2) ?S (HAL_GetTick (fresh 0)) 0 (fresh 0) 0
      \<and> \<not> acked (sim_transport 2) ?S (fresh 0) 0
      \<and> gives_up (sim_transport 2) ?S (HAL_GetTick (fresh 0)) 0 (fresh 0) (Suc 0)"
    by code_simp
  have h3: "(3 :: nat) < 2 ^ 32"
    by simp
  note t1 = waitForReady_by_rounds [where h = "sim_transport 1" and self = ?S and timeout = 1
      and w = "fresh 0" and n = 1]
  note t2 = waitForReady_by_rounds [where h = "sim_transport 2" and self = ?S and timeout = 0
      and w = "fresh 0" and n = 0
      and b = False and w' = "rounds (sim_transport 2) ?S (Suc 0) (fresh 0)"]
  note t3 = waitForReady_by_rounds [where k = 3 and self = ?S and timeout = 5 and ?t0.0 = 0]
  have r1: "waitForReady (sim_transport 1) ?S 1 (fresh 0) =
     Some (True, snd (isReady (sim_transport 1) ?S (rounds (sim_transport 1) ?S 1 (fresh 0))))"
    using t1 h1 by blast
  have r2: "waitForReady (sim_transport 2) ?S 0 (fresh 0) =
     Some (False, rounds (sim_transport 2) ?S (Suc 0) (fresh 0))"
    using t2 h2 by blast
  have r3: "\<exists>m. reaches (sim_transport 2) ?S (HAL_GetTick (fresh 0)) 0 (fresh 0) m
        \<and> \<not> acked (sim_transport 2) ?S (fresh 0) m"
    using t2 r2 by auto
  have r4: "map_option fst (waitForReady (sim_transport 3) ?S 5 (fresh 0)) =
     Some (3 \<le> unat (5 :: u32))"
    using t3 h3 by blast
  show ?thesis
    using h1 r1 h2 r2 r3 h3 r4 by blast
qed

text \<open>
  The claim as stated fails twice. On a slow bus a probe that takes 100 ticks and is
  acknowledged gives true although the timeout is 0. And with the timeout \<open>0xFFFFFFFF\<close> the
  simulated chip that needs \<open>2 ^ 32\<close> intervals gives true although \<open>2 ^ 32\<close> ms is more
  than the timeout.
\<close>

theorem waitForReady_true_beyond_timeout:
  "waitForReady slow_transport (Eeprom24_512 0 DEFAULT_ADDRESS) 0 (fresh 0) =
     Some (True, \<lparr>uwTick = 100, calls = [probe (Eeprom24_512 0 DEFAULT_ADDRESS)]\<rparr>) \<and>
   map_option fst (waitForReady (sim_transport (2 ^ 32)) (Eeprom24_512 0 DEFAULT_ADDRESS)
                     0xFFFFFFFF (fresh 0)) = Some True \<and>
   \<not> (2 ^ 32 * 1 \<le> unat (0xFFFFFFFF :: u32))"
proof -
  have a: "waitForReady slow_transport (Eeprom24_512 0 DEFAULT_ADDRESS) 0 (fresh 0) =
     Some (True, \<lparr>uwTick = 100, calls = [probe (Eeprom24_512 0 DEFAULT_ADDRESS)]\<rparr>)"
    by code_simp
  have m: "(0xFFFFFFFF :: u32) = - 1"
    by simp
  have b: "map_option fst (waitForReady (sim_transport (2 ^ 32)) (Eeprom24_512 0 DEFAULT_ADDRESS)
                     0xFFFFFFFF (fresh 0)) = Some True"
    unfolding m by (simp only: waitForReady_sim_exact option.map fst_conv simp_thms)
  have c: "\<not> (2 ^ 32 * 1 \<le> unat (0xFFFFFFFF :: u32))"
    by simp
  from a b c show ?thesis
    by blast
qed

text \<open>
  C3 (the claim: for every \<open>writePage\<close> call the frame sent in one transaction is the
  address prefix followed by all \<open>length\<close> data bytes, also when \<open>length\<close> exceeds the page
  size). On the 24x512 chip, whose page has 128 bytes, a call with 129 bytes does not get
  as far as the transmit: the copy stores \<^verbatim>\<open>data[128]\<close> at \<^verbatim>\<open>tmp[130]\<close>, one cell past the
  end of the 130-cell staging array.
\<close>

theorem writePage_beyond_page_overflows:
  "writePage h (Eeprom24_512 i2c address) byteAddress (replicate 129 0xAA) 129 w =
     Inl StagingOutOfBounds"
proof -
  have "unat (m_pageSizeInBytes (Eeprom24_512 i2c address)) < unat (129 :: u16)"
    by (simp add: Eeprom24_512_def Eeprom24_def)
  moreover have "unat (129 :: u16) \<le> length (replicate 129 (0xAA :: u8))"
    by simp
  ultimately show ?thesis
    unfolding writePage_def by (rule writePage_internal16_overflow)
qed

text \<open>
  C4 (the claim: \<open>readByte\<close> sends the address prefix in a write phase, then reads one byte,
  surfaces no error code, and returns 0 whenever either phase fails). The first three
  parts hold; the value returned is the content of the one-byte buffer after the read
  phase, that is the byte the receive stored, and the initial 0 when it stored none. No
  status enters the result. Stated for both address widths.
\<close>

theorem readByte_returns_buffer_content:
  "readByte_internal16 h self devAddress a16 w =
     (case take 1 (rx_data h
               (hal_step h (I2C_Master_Transmit (m_i2c self) (shl1 devAddress)
                              [ucast (drop_bit 8 a16), ucast a16] 25) w)
               (I2C_Master_Receive (m_i2c self) (shl1 devAddress) 1 EEPROM24_I2C_TIMEOUT)) of
        [] \<Rightarrow> 0
      | b # _ \<Rightarrow> b,
      hal_step h (I2C_Master_Receive (m_i2c self) (shl1 devAddress) 1 EEPROM24_I2C_TIMEOUT)
        (hal_step h (I2C_Master_Transmit (m_i2c self) (shl1 devAddress)
                       [ucast (drop_bit 8 a16), ucast a16] 25) w)) \<and>
   readByte_internal8 h self devAddress a8 w =
     (case take 1 (rx_data h
               (hal_step h (I2C_Master_Transmit (m_i2c self) (shl1 devAddress) [a8] 25) w)
               (I2C_Master_Receive (m_i2c self) (shl1 devAddress) 1 EEPROM24_I2C_TIMEOUT)) of
        [] \<Rightarrow> 0
      | b # _ \<Rightarrow> b,
      hal_step h (I2C_Master_Receive (m_i2c self) (shl1 devAddress) 1 EEPROM24_I2C_TIMEOUT)
        (hal_step h (I2C_Master_Transmit (m_i2c self) (shl1 devAddress) [a8] 25) w))"
  by (simp add: readByte_internal16_def readByte_internal8_def transmit_eq receive_eq
      lo8_of_u16 stored_byte_def Let_def)

text \<open>
  The claim as stated fails: when the transmit of the address fails and the receive then
  stores \<open>0xAB\<close>, \<open>readByte\<close> returns \<open>0xAB\<close>, not 0.
\<close>

theorem readByte_failed_transmit_nonzero:
  "status (nack_transport [0xAB]) (fresh 0)
     (I2C_Master_Transmit 0 (shl1 DEFAULT_ADDRESS) [0x01, 0x00] 25) = HAL_ERROR \<and>
   fst (readByte (nack_transport [0xAB]) (Eeprom24_512 0 DEFAULT_ADDRESS) 0x0100 (fresh 0)) = 0xAB"
  by (simp add: readByte_def readByte_internal16_def transmit_eq receive_eq stored_byte_def
      nack_transport_def Eeprom24_512_def Eeprom24_def Let_def)

text \<open>
  C5 (the claim: every write-family operation issues exactly one bus transmit per call,
  returns true iff that transmit succeeds, and never retries). The page write does not do
  this on every call. With as many bytes as the page has, 128 on the 24x512 chip, it makes
  one transmit and returns whether its status is \<open>HAL_OK\<close>; with one byte more it stores
  past the end of its staging array before any bus call, in both address widths (the
  second object is a chip with 8-byte pages). This is the overflow of C3.
\<close>

theorem page_write_one_past_the_page:
  "(\<exists>frame. writePage_internal16 h (Eeprom24_512 i2c address) devAddress a16
               (replicate 128 d) 128 w =
      Inr (status h w (I2C_Master_Transmit i2c (shl1 devAddress) frame
                         EEPROM24_I2C_TIMEOUT) = HAL_OK,
           hal_step h (I2C_Master_Transmit i2c (shl1 devAddress) frame
                         EEPROM24_I2C_TIMEOUT) w)) \<and>
   writePage_internal16 h (Eeprom24_512 i2c address) devAddress a16 (replicate 129 d) 129 w =
     Inl StagingOutOfBounds \<and>
   writePage_internal8 h (Eeprom24 i2c address 256 8) devAddress a8 (replicate 9 d) 9 w =
     Inl StagingOutOfBounds"
proof (intro conjI)
  have "unat (128 :: u16) \<le> unat (m_pageSizeInBytes (Eeprom24_512 i2c address))"
    and "unat (128 :: u16) \<le> length (replicate 128 d)"
    by (simp_all add: Eeprom24_512_def Eeprom24_def)
  from writePage_internal16_in_bounds [OF this, of h devAddress a16 w]
  show "\<exists>frame. writePage_internal16 h (Eeprom24_512 i2c address) devAddress a16
               (replicate 128 d) 128 w =
      Inr (status h w (I2C_Master_Transmit i2c (shl1 devAddress) frame
                         EEPROM24_I2C_TIMEOUT) = HAL_OK,
           hal_step h (I2C_Master_Transmit i2c (shl1 devAddress) frame
                         EEPROM24_I2C_TIMEOUT) w)"
    by (auto simp: Eeprom24_512_def Eeprom24_def)
next
  have "unat (m_pageSizeInBytes (Eeprom24_512 i2c address)) < unat (129 :: u16)"
    and "unat (129 :: u16) \<le> length (replicate 129 d)"
    by (simp_all add: Eeprom24_512_def Eeprom24_def)
  then show "writePage_internal16 h (Eeprom24_512 i2c address) devAddress a16
      (replicate 129 d) 129 w = Inl StagingOutOfBounds"
    by (rule writePage_internal16_overflow)
next
  have "unat (m_pageSizeInBytes (Eeprom24 i2c address 256 8)) < unat (9 :: u16)"
    and "unat (9 :: u16) \<le> length (replicate 9 d)"
    by (simp_all add: Eeprom24_def)
  then show "writePage_internal8 h (Eeprom24 i2c address 256 8) devAddress a8
      (replicate 9 d) 9 w = Inl StagingOutOfBounds"
    by (rule writePage_internal8_overflow)
qed

text \<open>
  C6 (the claim: \<open>readPage\<close> uses the two-phase protocol of \<open>readByte\<close> and asks for
  exactly \<open>length\<close> bytes in the read phase, whatever the page size). The call makes one
  transmit of the address prefix and then one receive whose size is \<open>length\<close> itself; it
  returns whether the receive succeeded, next to the bytes stored. With \<open>length = 1\<close> it
  leaves the same trace as \<open>readByte\<close>.
\<close>

theorem readPage_two_phase:
  "readPage_internal16 h self devAddress a16 len w =
     ((status h (hal_step h (I2C_Master_Transmit (m_i2c self) (shl1 devAddress)
                    [ucast (drop_bit 8 a16), ucast a16] EEPROM24_I2C_TIMEOUT) w)
         (I2C_Master_Receive (m_i2c self) (shl1 devAddress) len EEPROM24_I2C_TIMEOUT) = HAL_OK,
       take (unat len) (rx_data h (hal_step h (I2C_Master_Transmit (m_i2c self) (shl1 devAddress)
                    [ucast (drop_bit 8 a16), ucast a16] EEPROM24_I2C_TIMEOUT) w)
         (I2C_Master_Receive (m_i2c self) (shl1 devAddress) len EEPROM24_I2C_TIMEOUT))),
      hal_step h (I2C_Master_Receive (m_i2c self) (shl1 devAddress) len EEPROM24_I2C_TIMEOUT)
        (hal_step h (I2C_Master_Transmit (m_i2c self) (shl1 devAddress)
                    [ucast (drop_bit 8 a16), ucast a16] EEPROM24_I2C_TIMEOUT) w)) \<and>
   readPage_internal8 h self devAddress a8 len w =
     ((status h (hal_step h (I2C_Master_Transmit (m_i2c self) (shl1 devAddress)
                    [a8] EEPROM24_I2C_TIMEOUT) w)
         (I2C_Master_Receive (m_i2c self) (shl1 devAddress) len EEPROM24_I2C_TIMEOUT) = HAL_OK,
       take (unat len) (rx_data h (hal_step h (I2C_Master_Transmit (m_i2c self) (shl1 devAddress)
                    [a8] EEPROM24_I2C_TIMEOUT) w)
         (I2C_Master_Receive (m_i2c self) (shl1 devAddress) len EEPROM24_I2C_TIMEOUT))),
      hal_step h (I2C_Master_Receive (m_i2c self) (shl1 devAddress) len EEPROM24_I2C_TIMEOUT)
        (hal_step h (I2C_Master_Transmit (m_i2c self) (shl1 devAddress)
                    [a8] EEPROM24_I2C_TIMEOUT) w)) \<and>
   snd (readPage_internal16 h self devAddress a16 1 w) =
     snd (readByte_internal16 h self devAddress a16 w) \<and>
   snd (readPage_internal8 h self devAddress a8 1 w) =
     snd (readByte_internal8 h self devAddress a8 w)"
  by (simp add: readPage_internal16_def readPage_internal8_def readByte_internal16_def
      readByte_internal8_def transmit_eq receive_eq lo8_of_u16 Let_def EEPROM24_I2C_TIMEOUT_def)






text \<open>
  C9 (the claim: the results of \<open>readPage\<close> and \<open>readByte\<close> depend on the receive only; the
  outcome of the address transmit is discarded, so a failed transmit followed by a
  successful receive still gives \<open>readPage = true\<close>, and \<open>readByte\<close> returns the received
  byte). For both address widths: the boolean of \<open>readPage\<close> is whether the status of the
  receive is \<open>HAL_OK\<close>, and the byte of \<open>readByte\<close> is the byte the receive stored (0 if it
  stored none); replacing the status of every transmit by any other leaves all four results
  as they were; and in the case the claim names, \<open>readPage\<close> is true and \<open>readByte\<close> is the
  received byte.
\<close>

theorem read_result_is_the_receive:
  "fst (fst (readPage_internal16 h self devAddress a16 len w)) =
     (status h (hal_step h (I2C_Master_Transmit (m_i2c self) (shl1 devAddress)
                  [ucast (drop_bit 8 a16), ucast a16] EEPROM24_I2C_TIMEOUT) w)
        (I2C_Master_Receive (m_i2c self) (shl1 devAddress) len EEPROM24_I2C_TIMEOUT) = HAL_OK) \<and>
   fst (fst (readPage_internal8 h self devAddress a8 len w)) =
     (status h (hal_step h (I2C_Master_Transmit (m_i2c self) (shl1 devAddress)
                  [a8] EEPROM24_I2C_TIMEOUT) w)
        (I2C_Master_Receive (m_i2c self) (shl1 devAddress) len EEPROM24_I2C_TIMEOUT) = HAL_OK) \<and>
   fst (readByte_internal16 h self devAddress a16 w) =
     (case take 1 (rx_data h
               (hal_step h (I2C_Master_Transmit (m_i2c self) (shl1 devAddress)
                              [ucast (drop_bit 8 a16), ucast a16] 25) w)
               (I2C_Master_Receive (m_i2c self) (shl1 devAddress) 1 EEPROM24_I2C_TIMEOUT)) of
        [] \<Rightarrow> 0
      | x # _ \<Rightarrow> x) \<and>
   fst (readByte_internal8 h self devAddress a8 w) =
     (case take 1 (rx_data h
               (hal_step h (I2C_Master_Transmit (m_i2c self) (shl1 devAddress) [a8] 25) w)
               (I2C_Master_Receive (m_i2c self) (shl1 devAddress) 1 EEPROM24_I2C_TIMEOUT)) of
        [] \<Rightarrow> 0
      | x # _ \<Rightarrow> x) \<and>
   fst (readPage_internal16 (with_transmit_status g h) self devAddress a16 len w) =
     fst (readPage_internal16 h self devAddress a16 len w) \<and>
   fst (readPage_internal8 (with_transmit_status g h) self devAddress a8 len w) =
     fst (readPage_internal8 h self devAddress a8 len w) \<and>
   fst (readByte_internal16 (with_transmit_status g h) self devAddress a16 w) =
     fst (readByte_internal16 h self devAddress a16 w) \<and>
   fst (readByte_internal8 (with_transmit_status g h) self devAddress a8 w) =
     fst (readByte_internal8 h self devAddress a8 w) \<and>
   (status h w (I2C_Master_Transmit (m_i2c self) (shl1 devAddress)
                  [ucast (drop_bit 8 a16), ucast a16] EEPROM24_I2C_TIMEOUT) \<noteq> HAL_OK \<and>
    status h (hal_step h (I2C_Master_Transmit (m_i2c self) (shl1 devAddress)
                  [ucast (drop_bit 8 a16), ucast a16] EEPROM24_I2C_TIMEOUT) w)
      (I2C_Master_Receive (m_i2c self) (shl1 devAddress) len EEPROM24_I2C_TIMEOUT) = HAL_OK \<longrightarrow>
    fst (fst (readPage_internal16 h self devAddress a16 len w))) \<and>
   (status h w (I2C_Master_Transmit (m_i2c self) (shl1 devAddress)
                  [a8] EEPROM24_I2C_TIMEOUT) \<noteq> HAL_OK \<and>
    status h (hal_step h (I2C_Master_Transmit (m_i2c self) (shl1 devAddress)
                  [a8] EEPROM24_I2C_TIMEOUT) w)
      (I2C_Master_Receive (m_i2c self) (shl1 devAddress) len EEPROM24_I2C_TIMEOUT) = HAL_OK \<longrightarrow>
    fst (fst (readPage_internal8 h self devAddress a8 len w))) \<and>
   (status h w (I2C_Master_Transmit (m_i2c self) (shl1 devAddress)
                  [ucast (drop_bit 8 a16), ucast a16] 25) \<noteq> HAL_OK \<and>
    status h (hal_step h (I2C_Master_Transmit (m_i2c self) (shl1 devAddress)
                  [ucast (drop_bit 8 a16), ucast a16] 25) w)
      (I2C_Master_Receive (m_i2c self) (shl1 devAddress) 1 EEPROM24_I2C_TIMEOUT) = HAL_OK \<and>
    rx_data h (hal_step h (I2C_Master_Transmit (m_i2c self) (shl1 devAddress)
                  [ucast (drop_bit 8 a16), ucast a16] 25) w)
      (I2C_Master_Receive (m_i2c self) (shl1 devAddress) 1 EEPROM24_I2C_TIMEOUT) = b # bs \<longrightarrow>
    fst (readByte_internal16 h self devAddress a16 w) = b) \<and>
   (status h w (I2C_Master_Transmit (m_i2c self) (shl1 devAddress) [a8] 25) \<noteq> HAL_OK \<and>
    status h (hal_step h (I2C_Master_Transmit (m_i2c self) (shl1 devAddress) [a8] 25) w)
      (I2C_Master_Receive (m_i2c self) (shl1 devAddress) 1 EEPROM24_I2C_TIMEOUT) = HAL_OK \<and>
    rx_data h (hal_step h (I2C_Master_Transmit (m_i2c self) (shl1 devAddress) [a8] 25) w)
      (I2C_Master_Receive (m_i2c self) (shl1 devAddress) 1 EEPROM24_I2C_TIMEOUT) = b # bs \<longrightarrow>
    fst (readByte_internal8 h self devAddress a8 w) = b)"
  by (simp add: readPage_internal16_def readPage_internal8_def readByte_internal16_def
      readByte_internal8_def transmit_eq receive_eq lo8_of_u16 stored_byte_def Let_def
      hal_step_with_transmit_status status_with_transmit_status rx_data_with_transmit_status)

theorem read_result_is_the_receive_witness:
  "status (nack_transport [0xAB, 0xCD]) (fresh 0)
     (I2C_Master_Transmit 0 (shl1 DEFAULT_ADDRESS)
        [ucast (drop_bit 8 (0x0100 :: u16)), ucast (0x0100 :: u16)] EEPROM24_I2C_TIMEOUT)
     \<noteq> HAL_OK \<and>
   status (nack_transport [0xAB, 0xCD])
     (hal_step (nack_transport [0xAB, 0xCD])
        (I2C_Master_Transmit 0 (shl1 DEFAULT_ADDRESS)
           [ucast (drop_bit 8 (0x0100 :: u16)), ucast (0x0100 :: u16)] EEPROM24_I2C_TIMEOUT)
        (fresh 0))
     (I2C_Master_Receive 0 (shl1 DEFAULT_ADDRESS) 2 EEPROM24_I2C_TIMEOUT) = HAL_OK \<and>
   fst (fst (readPage_internal16 (nack_transport [0xAB, 0xCD]) (Eeprom24_512 0 DEFAULT_ADDRESS)
     DEFAULT_ADDRESS 0x0100 2 (fresh 0))) \<and>
   fst (fst (readPage_internal8 (nack_transport [0xAB, 0xCD]) (Eeprom24_512 0 DEFAULT_ADDRESS)
     DEFAULT_ADDRESS 0x10 2 (fresh 0))) \<and>
   fst (readByte_internal16 (nack_transport [0xAB, 0xCD]) (Eeprom24_512 0 DEFAULT_ADDRESS)
     DEFAULT_ADDRESS 0x0100 (fresh 0)) = 0xAB \<and>
   fst (readByte_internal8 (nack_transport [0xAB, 0xCD]) (Eeprom24_512 0 DEFAULT_ADDRESS)
     DEFAULT_ADDRESS 0x10 (fresh 0)) = 0xAB"
  using read_result_is_the_receive [where h = "nack_transport [0xAB, 0xCD]"
      and w = "fresh 0" and self = "Eeprom24_512 0 DEFAULT_ADDRESS"
      and devAddress = DEFAULT_ADDRESS and ?a16.0 = "0x0100" and ?a8.0 = "0x10" and len = 2
      and b = "0xAB" and bs = "[0xCD]"]
  by (simp add: nack_transport_def Eeprom24_512_def Eeprom24_def)

text \<open>
  C10 (the claim: with \<open>length\<close> at most the page size every store of the page write's copy
  is inside the staging array, and with a greater \<open>length\<close> the copy stores past its end).
  With \<open>length\<close> at most the page size the page write never ends in the staging error, and
  it returns normally when the caller's data has \<open>length\<close> bytes; with a greater \<open>length\<close>
  (and that much data) it always ends in the staging error. Stated for both address
  widths.
\<close>

theorem writePage_staging_bounds:
  "(unat len \<le> unat (m_pageSizeInBytes self) \<longrightarrow>
      writePage_internal16 h self devAddress a16 data len w \<noteq> Inl StagingOutOfBounds \<and>
      writePage_internal8 h self devAddress a8 data len w \<noteq> Inl StagingOutOfBounds) \<and>
   (unat len \<le> unat (m_pageSizeInBytes self) \<and> unat len \<le> length data \<longrightarrow>
      (\<exists>r. writePage_internal16 h self devAddress a16 data len w = Inr r) \<and>
      (\<exists>r. writePage_internal8 h self devAddress a8 data len w = Inr r)) \<and>
   (unat (m_pageSizeInBytes self) < unat len \<and> unat len \<le> length data \<longrightarrow>
      writePage_internal16 h self devAddress a16 data len w = Inl StagingOutOfBounds \<and>
      writePage_internal8 h self devAddress a8 data len w = Inl StagingOutOfBounds)"
  using writePage_internal16_not_staging [of len self h devAddress a16 data w]
    writePage_internal8_not_staging [of len self h devAddress a8 data w]
    writePage_internal16_in_bounds [of len self data h devAddress a16 w]
    writePage_internal8_in_bounds [of len self data h devAddress a8 w]
    writePage_internal16_overflow [of self len data h devAddress a16 w]
    writePage_internal8_overflow [of self len data h devAddress a8 w]
  by blast

theorem writePage_staging_bounds_witness:
  "unat (128 :: u16) \<le> unat (m_pageSizeInBytes (Eeprom24_512 0 DEFAULT_ADDRESS)) \<and>
   unat (128 :: u16) \<le> length (replicate 129 (0xAA :: u8)) \<and>
   writePage_internal16 (ok_transport []) (Eeprom24_512 0 DEFAULT_ADDRESS) DEFAULT_ADDRESS
     0x0100 (replicate 129 0xAA) 128 (fresh 0) \<noteq> Inl StagingOutOfBounds \<and>
   (\<exists>r. writePage_internal16 (ok_transport []) (Eeprom24_512 0 DEFAULT_ADDRESS) DEFAULT_ADDRESS
     0x0100 (replicate 129 0xAA) 128 (fresh 0) = Inr r) \<and>
   unat (m_pageSizeInBytes (Eeprom24_512 0 DEFAULT_ADDRESS)) < unat (129 :: u16) \<and>
   unat (129 :: u16) \<le> length (replicate 129 (0xAA :: u8)) \<and>
   writePage_internal16 (ok_transport []) (Eeprom24_512 0 DEFAULT_ADDRESS) DEFAULT_ADDRESS
     0x0100 (replicate 129 0xAA) 129 (fresh 0) = Inl StagingOutOfBounds"
  using writePage_staging_bounds [where len = 128 and self = "Eeprom24_512 0 DEFAULT_ADDRESS"
      and h = "ok_transport []" and devAddress = DEFAULT_ADDRESS and ?a16.0 = "0x0100"
      and data = "replicate 129 0xAA" and w = "fresh 0"]
    writePage_staging_bounds [where len = 129 and self = "Eeprom24_512 0 DEFAULT_ADDRESS"
      and h = "ok_transport []" and devAddress = DEFAULT_ADDRESS and ?a16.0 = "0x0100"
      and data = "replicate 129 0xAA" and w = "fresh 0"]
  by (simp add: Eeprom24_512_def Eeprom24_def)

end
